theory Spec2Isabelle
  imports Complex_Main "HOL-Library.AList"
begin

chapter \<open>The model of the server\<close>

section \<open>JavaScript numbers\<close>

text \<open>
  The server is TypeScript; every \<open>number\<close> is an IEEE-754 double. The model keeps the
  special values of that type, because the code's guards and divisions depend on them:
  a number is a finite real, \<open>+Infinity\<close>, \<open>-Infinity\<close> or \<open>NaN\<close>. Arithmetic on finite
  values is exact real arithmetic (rounding and overflow are not modelled), and there is one
  zero, which behaves as \<open>+0\<close>; \<open>-0 === 0\<close> in JavaScript, and the only place the sign of a
  zero can be seen is the sign of the infinity produced by dividing a non-zero number by it.
\<close>

datatype jsnum = Fin real | PInf | NInf | NaN

fun jneg :: "jsnum \<Rightarrow> jsnum" where
  "jneg (Fin a) = Fin (- a)"
| "jneg PInf = NInf"
| "jneg NInf = PInf"
| "jneg NaN = NaN"

fun jadd :: "jsnum \<Rightarrow> jsnum \<Rightarrow> jsnum" where
  "jadd NaN _ = NaN"
| "jadd _ NaN = NaN"
| "jadd (Fin a) (Fin b) = Fin (a + b)"
| "jadd PInf NInf = NaN"
| "jadd NInf PInf = NaN"
| "jadd PInf _ = PInf"
| "jadd _ PInf = PInf"
| "jadd NInf _ = NInf"
| "jadd _ NInf = NInf"

text \<open>IEEE subtraction is addition of the negated subtrahend.\<close>

definition jsub :: "jsnum \<Rightarrow> jsnum \<Rightarrow> jsnum" where
  "jsub a b = jadd a (jneg b)"

fun jmul :: "jsnum \<Rightarrow> jsnum \<Rightarrow> jsnum" where
  "jmul NaN _ = NaN"
| "jmul _ NaN = NaN"
| "jmul (Fin a) (Fin b) = Fin (a * b)"
| "jmul (Fin a) PInf = (if a = 0 then NaN else if 0 < a then PInf else NInf)"
| "jmul (Fin a) NInf = (if a = 0 then NaN else if 0 < a then NInf else PInf)"
| "jmul PInf (Fin b) = (if b = 0 then NaN else if 0 < b then PInf else NInf)"
| "jmul NInf (Fin b) = (if b = 0 then NaN else if 0 < b then NInf else PInf)"
| "jmul PInf PInf = PInf"
| "jmul PInf NInf = NInf"
| "jmul NInf PInf = NInf"
| "jmul NInf NInf = PInf"

text \<open>
  Division never raises: \<open>0 / 0\<close> and \<open>Infinity / Infinity\<close> are \<open>NaN\<close>, a non-zero
  number divided by zero is an infinity, a finite number divided by an infinity is zero.
\<close>

fun jdiv :: "jsnum \<Rightarrow> jsnum \<Rightarrow> jsnum" where
  "jdiv NaN _ = NaN"
| "jdiv _ NaN = NaN"
| "jdiv (Fin a) (Fin b) =
     (if b = 0 then (if a = 0 then NaN else if 0 < a then PInf else NInf) else Fin (a / b))"
| "jdiv (Fin a) PInf = Fin 0"
| "jdiv (Fin a) NInf = Fin 0"
| "jdiv PInf (Fin b) = (if 0 \<le> b then PInf else NInf)"
| "jdiv NInf (Fin b) = (if 0 \<le> b then NInf else PInf)"
| "jdiv PInf PInf = NaN"
| "jdiv PInf NInf = NaN"
| "jdiv NInf PInf = NaN"
| "jdiv NInf NInf = NaN"

text \<open>\<open>Math.sqrt\<close>: \<open>NaN\<close> on a negative argument.\<close>

fun jsqrt :: "jsnum \<Rightarrow> jsnum" where
  "jsqrt (Fin a) = (if a < 0 then NaN else Fin (sqrt a))"
| "jsqrt PInf = PInf"
| "jsqrt NInf = NaN"
| "jsqrt NaN = NaN"

text \<open>\<open>Math.cos\<close> and \<open>Math.sin\<close>: \<open>NaN\<close> outside the finite numbers.\<close>

fun jcos :: "jsnum \<Rightarrow> jsnum" where
  "jcos (Fin a) = Fin (cos a)"
| "jcos _ = NaN"

fun jsin :: "jsnum \<Rightarrow> jsnum" where
  "jsin (Fin a) = Fin (sin a)"
| "jsin _ = NaN"

text \<open>\<open>v ** 2\<close>.\<close>

definition jsq :: "jsnum \<Rightarrow> jsnum" where
  "jsq a = jmul a a"

text \<open>The comparisons \<open><\<close>, \<open>>\<close>, \<open><=\<close>, \<open>>=\<close>: false whenever an operand is \<open>NaN\<close>.\<close>

fun jlt :: "jsnum \<Rightarrow> jsnum \<Rightarrow> bool" where
  "jlt NaN _ = False"
| "jlt _ NaN = False"
| "jlt (Fin a) (Fin b) = (a < b)"
| "jlt _ NInf = False"
| "jlt NInf _ = True"
| "jlt PInf _ = False"
| "jlt _ PInf = True"

definition jgt :: "jsnum \<Rightarrow> jsnum \<Rightarrow> bool" where
  "jgt a b = jlt b a"

text \<open>Strict equality \<open>===\<close> on numbers: \<open>NaN\<close> equals nothing, itself included.\<close>

definition jseq :: "jsnum \<Rightarrow> jsnum \<Rightarrow> bool" where
  "jseq a b = (a \<noteq> NaN \<and> a = b)"

definition jle :: "jsnum \<Rightarrow> jsnum \<Rightarrow> bool" where
  "jle a b = (jlt a b \<or> jseq a b)"

definition jge :: "jsnum \<Rightarrow> jsnum \<Rightarrow> bool" where
  "jge a b = jle b a"

text \<open>Truthiness of a number, as in \<open>m || 1\<close>: zero and \<open>NaN\<close> are falsy.\<close>

definition truthy :: "jsnum \<Rightarrow> bool" where
  "truthy a = (a \<noteq> Fin 0 \<and> a \<noteq> NaN)"

section \<open>Data model\<close>

text \<open>
  The interfaces of the server logic. The fields \<open>x\<close>, \<open>y\<close>, \<open>z\<close> of \<open>Vector3D\<close> are
  \<open>vec_x\<close>, \<open>vec_y\<close>, \<open>vec_z\<close>, those of \<open>MovementInput\<close> are \<open>in_x\<close>, \<open>in_z\<close>, \<open>sprint\<close>.
  An optional field (\<open>f?: T\<close>) is an \<open>option\<close>, \<open>None\<close> for \<open>undefined\<close>. Timestamps
  (\<open>Date.now()\<close>) are integers, counters are naturals.
\<close>

record Vector3D =
  vec_x :: jsnum
  vec_y :: jsnum
  vec_z :: jsnum

record MovementInput =
  in_x :: jsnum
  in_z :: jsnum
  sprint :: bool

record PlayerBall =
  socketId :: string
  name :: string
  color :: string
  position :: Vector3D
  velocity :: Vector3D
  rotation :: Vector3D
  acceleration :: Vector3D
  isEliminated :: bool
  eliminatedAt :: "int option"
  stamina :: jsnum
  isSprinting :: bool
  eliminations :: nat
  survivalTime :: jsnum
  lastInput :: "MovementInput option"
  lastHitBy :: "string option"
  lastHitTime :: "int option"

subsection \<open>Constants\<close>

definition BALL_RADIUS :: jsnum where "BALL_RADIUS = Fin (1/2)"
definition MAX_VELOCITY :: jsnum where "MAX_VELOCITY = Fin 30"
definition SPRINT_MAX_VELOCITY :: jsnum where "SPRINT_MAX_VELOCITY = Fin 50"
definition MOVE_FORCE :: jsnum where "MOVE_FORCE = Fin 75"
definition SPRINT_FORCE :: jsnum where "SPRINT_FORCE = Fin 120"
definition FRICTION :: jsnum where "FRICTION = Fin (9/10)"
definition GRAVITY :: jsnum where "GRAVITY = Fin (981/100)"
definition PLATFORM_RADIUS :: jsnum where "PLATFORM_RADIUS = Fin 10"
definition FALL_THRESHOLD :: jsnum where "FALL_THRESHOLD = Fin (- 5)"
definition SPAWN_HEIGHT :: jsnum where "SPAWN_HEIGHT = Fin 1"
definition MAX_STAMINA :: jsnum where "MAX_STAMINA = Fin 100"
definition STAMINA_REGEN :: jsnum where "STAMINA_REGEN = Fin 15"
definition STAMINA_DRAIN :: jsnum where "STAMINA_DRAIN = Fin 45"
definition MIN_SPRINT_STAMINA :: jsnum where "MIN_SPRINT_STAMINA = Fin 10"
definition SPAWN_RADIUS :: jsnum where "SPAWN_RADIUS = Fin 8"
definition COUNTDOWN_DURATION :: int where "COUNTDOWN_DURATION = 3"

definition PLAYER_COLORS :: "string list" where
  "PLAYER_COLORS =
     [''#FF4444'', ''#4444FF'', ''#44FF44'', ''#FFFF44'', ''#FF44FF'', ''#44FFFF'', ''#FF8844'',
      ''#8844FF'']"

section \<open>Stamina\<close>

text \<open>
  \<open>player.lastInput?.x !== 0 || player.lastInput?.z !== 0\<close>: with no input recorded both
  sides are \<open>undefined !== 0\<close>, which is true.
\<close>

definition input_moving :: "MovementInput option \<Rightarrow> bool" where
  "input_moving li =
     (case li of None \<Rightarrow> True
      | Some i \<Rightarrow> \<not> jseq (in_x i) (Fin 0) \<or> \<not> jseq (in_z i) (Fin 0))"

text \<open>\<open>player.lastInput?.sprint\<close> as a condition: \<open>undefined\<close> is falsy.\<close>

definition input_sprint :: "MovementInput option \<Rightarrow> bool" where
  "input_sprint li = (case li of None \<Rightarrow> False | Some i \<Rightarrow> sprint i)"

definition updateStamina :: "PlayerBall \<Rightarrow> jsnum \<Rightarrow> PlayerBall" where
  "updateStamina player deltaTime =
     (let p =
        (if isSprinting player \<and> input_moving (lastInput player)
         then
           (let d = player\<lparr>stamina := jsub (stamina player) (jmul STAMINA_DRAIN deltaTime)\<rparr>
            in if jlt (stamina d) (Fin 0) then d\<lparr>stamina := Fin 0, isSprinting := False\<rparr> else d)
         else
           (let r = player\<lparr>stamina := jadd (stamina player) (jmul STAMINA_REGEN deltaTime)\<rparr>
            in if jgt (stamina r) MAX_STAMINA then r\<lparr>stamina := MAX_STAMINA\<rparr> else r))
      in if input_sprint (lastInput p) \<and> jge (stamina p) MIN_SPRINT_STAMINA
         then p\<lparr>isSprinting := True\<rparr>
         else p\<lparr>isSprinting := False\<rparr>)"

text \<open>The interval of admissible stamina values, \<open>0 \<le> s \<le> 100\<close>.\<close>

definition stamina_ok :: "jsnum \<Rightarrow> bool" where
  "stamina_ok s = (jle (Fin 0) s \<and> jle s MAX_STAMINA)"

section \<open>Collisions\<close>

text \<open>
  \<open>resolveCollision\<close> mutates the two player objects it is given; the model returns the
  two updated players. \<open>now\<close> is the value \<open>Date.now()\<close> returns when the hit is recorded.
  The stages of the mutation are named: \<open>p1s\<close>, \<open>p2s\<close> after the separation, \<open>p1i\<close>,
  \<open>p2i\<close> after the impulses, \<open>p1m\<close>, \<open>p2m\<close> after the minimum-impulse step.
\<close>

definition resolveCollision ::
  "int \<Rightarrow> PlayerBall \<Rightarrow> PlayerBall \<Rightarrow> jsnum \<Rightarrow> jsnum \<Rightarrow> jsnum \<Rightarrow> PlayerBall \<times> PlayerBall" where
  "resolveCollision now p1 p2 dx dz distance =
     (let nx = jdiv dx distance;
          nz = jdiv dz distance;
          overlap = jsub (jmul BALL_RADIUS (Fin 2)) distance;
          p1s = p1\<lparr>position := (position p1)
                  \<lparr>vec_x := jsub (vec_x (position p1)) (jmul (jmul nx overlap) (Fin (1/2))),
                   vec_z := jsub (vec_z (position p1)) (jmul (jmul nz overlap) (Fin (1/2)))\<rparr>\<rparr>;
          p2s = p2\<lparr>position := (position p2)
                  \<lparr>vec_x := jadd (vec_x (position p2)) (jmul (jmul nx overlap) (Fin (1/2))),
                   vec_z := jadd (vec_z (position p2)) (jmul (jmul nz overlap) (Fin (1/2)))\<rparr>\<rparr>;
          speed1 = jsqrt (jadd (jsq (vec_x (velocity p1s))) (jsq (vec_z (velocity p1s))));
          speed2 = jsqrt (jadd (jsq (vec_x (velocity p2s))) (jsq (vec_z (velocity p2s))));
          mass1 = (if isSprinting p1s then Fin (3/2) else Fin 1);
          mass2 = (if isSprinting p2s then Fin (3/2) else Fin 1);
          relVelX = jsub (vec_x (velocity p2s)) (vec_x (velocity p1s));
          relVelZ = jsub (vec_z (velocity p2s)) (vec_z (velocity p1s));
          velAlongNormal = jadd (jmul relVelX nx) (jmul relVelZ nz)
      in if jgt velAlongNormal (Fin 0) then (p1s, p2s)
         else
           (let restitution = Fin (21/2);
                totalMass = jadd mass1 mass2;
                j = jdiv (jmul (jneg (jadd (Fin 1) restitution)) velAlongNormal) totalMass;
                speedFactor1 = jadd (Fin 1) (jmul (jdiv speed1 MAX_VELOCITY) (Fin 9));
                speedFactor2 = jadd (Fin 1) (jmul (jdiv speed2 MAX_VELOCITY) (Fin 9));
                impulse1 = jmul (jmul j mass2) speedFactor2;
                impulse2 = jmul (jmul j mass1) speedFactor1;
                p1i = p1s\<lparr>velocity := (velocity p1s)
                        \<lparr>vec_x := jsub (vec_x (velocity p1s)) (jmul impulse1 nx),
                         vec_z := jsub (vec_z (velocity p1s)) (jmul impulse1 nz)\<rparr>\<rparr>;
                p2i = p2s\<lparr>velocity := (velocity p2s)
                        \<lparr>vec_x := jadd (vec_x (velocity p2s)) (jmul impulse2 nx),
                         vec_z := jadd (vec_z (velocity p2s)) (jmul impulse2 nz)\<rparr>\<rparr>;
                minImpulse = Fin 24;
                p1ImpulseMagnitude = jsqrt (jadd (jsq (jmul impulse1 nx)) (jsq (jmul impulse1 nz)));
                p2ImpulseMagnitude = jsqrt (jadd (jsq (jmul impulse2 nx)) (jsq (jmul impulse2 nz)));
                p1m = (if jlt p1ImpulseMagnitude minImpulse
                       then (let scale = jdiv minImpulse
                                   (if truthy p1ImpulseMagnitude then p1ImpulseMagnitude else Fin 1)
                             in p1i\<lparr>velocity := (velocity p1i)
                                  \<lparr>vec_x := jsub (vec_x (velocity p1i)) (jmul (jmul impulse1 nx) scale),
                                   vec_z := jsub (vec_z (velocity p1i)) (jmul (jmul impulse1 nz) scale)\<rparr>\<rparr>)
                       else p1i);
                p2m = (if jlt p2ImpulseMagnitude minImpulse
                       then (let scale = jdiv minImpulse
                                   (if truthy p2ImpulseMagnitude then p2ImpulseMagnitude else Fin 1)
                             in p2i\<lparr>velocity := (velocity p2i)
                                  \<lparr>vec_x := jadd (vec_x (velocity p2i)) (jmul (jmul impulse2 nx) scale),
                                   vec_z := jadd (vec_z (velocity p2i)) (jmul (jmul impulse2 nz) scale)\<rparr>\<rparr>)
                       else p2i)
            in if jgt speed1 speed2
               then (p1m, p2m\<lparr>lastHitBy := Some (socketId p1m), lastHitTime := Some now\<rparr>)
               else (p1m\<lparr>lastHitBy := Some (socketId p2m), lastHitTime := Some now\<rparr>, p2m)))"

text \<open>The body of the inner loop of \<open>checkCollisions\<close>, for the pair \<open>p1\<close>, \<open>p2\<close>.\<close>

definition collidePair :: "int \<Rightarrow> PlayerBall \<Rightarrow> PlayerBall \<Rightarrow> PlayerBall \<times> PlayerBall" where
  "collidePair now p1 p2 =
     (let dx = jsub (vec_x (position p2)) (vec_x (position p1));
          dz = jsub (vec_z (position p2)) (vec_z (position p1));
          distance = jsqrt (jadd (jmul dx dx) (jmul dz dz));
          minDistance = jmul BALL_RADIUS (Fin 2)
      in if jlt distance minDistance then resolveCollision now p1 p2 dx dz distance
         else (p1, p2))"

text \<open>
  \<open>checkCollisions\<close> filters the live players into an array of references and visits every
  pair \<open>i < j\<close> of it in order; a resolution mutates the players of the game data through
  those references. The model works on the player list with the positions of the live
  players in it; \<open>clock i j\<close> is the time read when the pair at positions \<open>i\<close>, \<open>j\<close> is
  resolved.
\<close>

fun index_pairs :: "nat list \<Rightarrow> (nat \<times> nat) list" where
  "index_pairs [] = []"
| "index_pairs (i # js) = map (Pair i) js @ index_pairs js"

definition collideAt ::
  "(nat \<Rightarrow> nat \<Rightarrow> int) \<Rightarrow> PlayerBall list \<Rightarrow> nat \<times> nat \<Rightarrow> PlayerBall list" where
  "collideAt clock ps ij =
     (case ij of (i, j) \<Rightarrow>
        (case collidePair (clock i j) (ps ! i) (ps ! j) of (p1, p2) \<Rightarrow> ps[i := p1, j := p2]))"

definition checkCollisions :: "(nat \<Rightarrow> nat \<Rightarrow> int) \<Rightarrow> PlayerBall list \<Rightarrow> PlayerBall list" where
  "checkCollisions clock ps =
     (let alivePlayers = filter (\<lambda>i. \<not> isEliminated (ps ! i)) [0..<length ps]
      in foldl (collideAt clock) ps (index_pairs alivePlayers))"

text \<open>
  A ball as \<open>initializeBumperBallsGame\<close> creates it (live, at spawn height, full stamina, zero
  input), with the given identity, planar position and planar velocity.
\<close>

definition ball :: "string \<Rightarrow> real \<Rightarrow> real \<Rightarrow> real \<Rightarrow> real \<Rightarrow> PlayerBall" where
  "ball sid px pz vx vz =
     \<lparr>socketId = sid, name = sid, color = ''#FF4444'',
      position = \<lparr>vec_x = Fin px, vec_y = SPAWN_HEIGHT, vec_z = Fin pz\<rparr>,
      velocity = \<lparr>vec_x = Fin vx, vec_y = Fin 0, vec_z = Fin vz\<rparr>,
      rotation = \<lparr>vec_x = Fin 0, vec_y = Fin 0, vec_z = Fin 0\<rparr>,
      acceleration = \<lparr>vec_x = Fin 0, vec_y = Fin 0, vec_z = Fin 0\<rparr>,
      isEliminated = False, eliminatedAt = None, stamina = MAX_STAMINA, isSprinting = False,
      eliminations = 0, survivalTime = Fin 0,
      lastInput = Some \<lparr>in_x = Fin 0, in_z = Fin 0, sprint = False\<rparr>,
      lastHitBy = None, lastHitTime = None\<rparr>"

section \<open>Game data and emitted messages\<close>

datatype Status = Countdown | Playing | Ended

datatype GameMode = Classic | Shrinking | Timed

record GameData =
  status :: Status
  countdownValue :: "int option"
  startTime :: int
  gameMode :: GameMode
  players :: "PlayerBall list"
  alivePlayers :: "string list"
  eliminationOrder :: "string list"
  winnerId :: "string option"
  lastTickTime :: int

text \<open>
  What the server sends is a JavaScript value. An object is the list of its properties in
  insertion order; a property that is \<open>undefined\<close> is left out, as it is on the wire.
\<close>

datatype jsval =
    JNull
  | JBool bool
  | JNum jsnum
  | JStr string
  | JArr "jsval list"
  | JObj "(string \<times> jsval) list"

text \<open>
  \<open>io.to(roomCode).emit(event, payload)\<close> reaches every connection of the room,
  \<open>socket.emit(event, payload)\<close> only the connection that sent the request. The messages
  sent are collected in a log, oldest first.
\<close>

datatype target = ToRoom string | ToSocket string

type_synonym emit = "target \<times> string \<times> jsval"

definition JInt :: "int \<Rightarrow> jsval" where
  "JInt n = JNum (Fin (real_of_int n))"

definition JNat :: "nat \<Rightarrow> jsval" where
  "JNat n = JNum (Fin (real n))"

text \<open>\<open>array.findIndex\<close>-style search: the position of the first element that satisfies \<open>P\<close>.\<close>

primrec findIndex :: "('a \<Rightarrow> bool) \<Rightarrow> 'a list \<Rightarrow> nat option" where
  "findIndex P [] = None"
| "findIndex P (x # xs) =
     (if P x then Some 0 else (case findIndex P xs of None \<Rightarrow> None | Some n \<Rightarrow> Some (Suc n)))"

section \<open>Elimination\<close>

text \<open>
  \<open>eliminatePlayer\<close> is called with a reference to an element of \<open>gameData.players\<close>; the
  model takes its position \<open>i\<close>. \<open>t1\<close> and \<open>t2\<close> are the two readings of \<open>Date.now()\<close>.
  The attacker is looked up by \<open>players.find\<close> after the player has been marked
  eliminated. A string or a number used as a condition is falsy when it is \<open>undefined\<close>,
  empty or zero.
\<close>

definition eliminatePlayer ::
  "int \<Rightarrow> int \<Rightarrow> string \<Rightarrow> nat \<Rightarrow> GameData \<times> emit list \<Rightarrow> GameData \<times> emit list" where
  "eliminatePlayer t1 t2 roomCode i st =
     (case st of (gameData, out) \<Rightarrow>
       (let player = (players gameData ! i)\<lparr>isEliminated := True, eliminatedAt := Some t1\<rparr>;
            ps = (players gameData)[i := player];
            HIT_CREDIT_WINDOW = 3000;
            ps' =
              (case (lastHitBy player, lastHitTime player) of
                 (Some hitBy, Some hitTime) \<Rightarrow>
                   if hitBy \<noteq> [] \<and> hitTime \<noteq> 0 then
                     (let timeSinceHit = t2 - hitTime
                      in if timeSinceHit < HIT_CREDIT_WINDOW then
                           (case findIndex (\<lambda>p. socketId p = hitBy) ps of
                              Some a \<Rightarrow>
                                if \<not> isEliminated (ps ! a)
                                then ps[a := (ps ! a)\<lparr>eliminations := eliminations (ps ! a) + 1\<rparr>]
                                else ps
                            | None \<Rightarrow> ps)
                         else ps)
                   else ps
               | _ \<Rightarrow> ps);
            alive = filter (\<lambda>id. id \<noteq> socketId player) (alivePlayers gameData)
        in (gameData\<lparr>players := ps',
                      eliminationOrder := eliminationOrder gameData @ [socketId player],
                      alivePlayers := alive\<rparr>,
            out @ [(ToRoom roomCode, ''bumper:player-eliminated'',
                    JObj [(''socketId'', JStr (socketId player)),
                          (''playerName'', JStr (name player)),
                          (''remainingPlayers'', JNat (length alive))])])))"

text \<open>
  One iteration of the loop of \<open>checkEliminations\<close>, for the player at position \<open>i\<close>;
  \<open>clock i\<close> gives the two times read if that player is eliminated.
\<close>

definition eliminationStep ::
  "(nat \<Rightarrow> int \<times> int) \<Rightarrow> string \<Rightarrow> GameData \<times> emit list \<Rightarrow> nat \<Rightarrow> GameData \<times> emit list" where
  "eliminationStep clock roomCode st i =
     (let player = players (fst st) ! i
      in if isEliminated player then st
         else
           (let distFromCenter =
                  jsqrt (jadd (jsq (vec_x (position player))) (jsq (vec_z (position player))))
            in if jgt distFromCenter PLATFORM_RADIUS
               then eliminatePlayer (fst (clock i)) (snd (clock i)) roomCode i st
               else if jlt (vec_y (position player)) FALL_THRESHOLD
               then eliminatePlayer (fst (clock i)) (snd (clock i)) roomCode i st
               else st))"

definition checkEliminations ::
  "(nat \<Rightarrow> int \<times> int) \<Rightarrow> string \<Rightarrow> GameData \<times> emit list \<Rightarrow> GameData \<times> emit list" where
  "checkEliminations clock roomCode st =
     foldl (eliminationStep clock roomCode) st [0..<length (players (fst st))]"

text \<open>
  The consistency of a session's game data: every player has its own \<open>socketId\<close> (the server
  admits a connection into a lobby once), \<open>alivePlayers\<close> lists the live players in roster
  order, and \<open>eliminationOrder\<close> lists the eliminated players, each once.
\<close>

definition session_inv :: "GameData \<Rightarrow> bool" where
  "session_inv gd =
     (distinct (map socketId (players gd))
      \<and> alivePlayers gd = map socketId (filter (\<lambda>p. \<not> isEliminated p) (players gd))
      \<and> distinct (eliminationOrder gd)
      \<and> set (eliminationOrder gd) = set (map socketId (filter isEliminated (players gd))))"

text \<open>The number of \<open>bumper:player-eliminated\<close> messages in a log.\<close>

definition elimination_events :: "emit list \<Rightarrow> nat" where
  "elimination_events out = length (filter (\<lambda>e. fst (snd e) = ''bumper:player-eliminated'') out)"

text \<open>
  What a pass over a session's game data may change, from the state \<open>st\<close> to the state
  \<open>st'\<close>: identities stay, an eliminated player stays eliminated, the number of live players
  does not grow, and it drops by exactly the number of elimination messages sent.
\<close>

definition advances :: "GameData \<times> emit list \<Rightarrow> GameData \<times> emit list \<Rightarrow> bool" where
  "advances st st' =
     (map socketId (players (fst st')) = map socketId (players (fst st))
      \<and> (\<forall>k < length (players (fst st)).
            isEliminated (players (fst st) ! k) \<longrightarrow> isEliminated (players (fst st') ! k))
      \<and> length (alivePlayers (fst st')) + elimination_events (snd st')
          = length (alivePlayers (fst st)) + elimination_events (snd st)
      \<and> length (alivePlayers (fst st')) \<le> length (alivePlayers (fst st)))"

section \<open>Lobbies and the registry of live games\<close>

text \<open>
  The lobby types of the server. The \<open>Player\<close> of a lobby is \<open>LobbyPlayer\<close> here and its
  fields carry the prefix \<open>lp_\<close>; the lobby's \<open>id\<close>, \<open>players\<close> and \<open>gameData\<close> are
  \<open>lobby_id\<close>, \<open>lobby_players\<close> and \<open>lobby_gameData\<close>. \<open>lobby.gameData\<close> is either \<open>null\<close>
  or a reference to the game data of the session running in the lobby, so it is modelled by
  a flag. \<open>settings.gameMode\<close> is read by the game although the \<open>Settings\<close> interface does
  not declare it.
\<close>

record LobbyPlayer =
  lp_socketId :: string
  lp_gameBuddiesUuid :: "string option"
  lp_name :: string
  lp_score :: int
  lp_connected :: bool
  lp_isHost :: bool
  lp_disconnectedAt :: "int option"

datatype GameState = LOBBY_WAITING | PLAYING | GAME_ENDED

record Settings =
  minPlayers :: nat
  maxPlayers :: nat
  settings_gameMode :: "GameMode option"

record ChatMessage =
  msg_id :: string
  playerId :: string
  playerName :: string
  message :: string
  timestamp :: int
  isSystem :: "bool option"

record Lobby =
  lobby_id :: string
  code :: string
  hostId :: string
  settings :: Settings
  lobby_players :: "LobbyPlayer list"
  state :: GameState
  lobby_gameData :: bool
  isGameBuddiesRoom :: bool
  gameBuddiesRoomCode :: "string option"
  messages :: "ChatMessage list"

text \<open>
  A timer handle (\<open>NodeJS.Timeout\<close>) is live or has been cleared; a field that holds
  \<open>null\<close> is \<open>None\<close>. \<open>if (t) clearInterval(t)\<close> is \<open>clearTimer\<close>.
\<close>

datatype timer = Active | Cancelled

definition clearTimer :: "timer option \<Rightarrow> timer option" where
  "clearTimer t = (case t of None \<Rightarrow> None | Some _ \<Rightarrow> Some Cancelled)"

text \<open>
  An entry of \<open>activeGames\<close>. Its \<open>lobby\<close> is a reference to the lobby object, which the
  server's own table \<open>lobbies\<close> references too: lobby objects live in a store, addressed by
  numbers.
\<close>

record Game =
  lobby :: "nat option"
  gameData :: GameData
  gameLoop :: "timer option"
  syncLoop :: "timer option"
  countdownInterval :: "timer option"
  cleanupTimeout :: "timer option"

record World =
  lobbyObjs :: "nat \<rightharpoonup> Lobby"
  lobbies :: "string \<rightharpoonup> nat"
  activeGames :: "string \<rightharpoonup> Game"
  sent :: "emit list"

section \<open>Payloads\<close>

definition vector_json :: "Vector3D \<Rightarrow> jsval" where
  "vector_json v = JObj [(''x'', JNum (vec_x v)), (''y'', JNum (vec_y v)), (''z'', JNum (vec_z v))]"

definition input_json :: "MovementInput \<Rightarrow> jsval" where
  "input_json i = JObj [(''x'', JNum (in_x i)), (''z'', JNum (in_z i)), (''sprint'', JBool (sprint i))]"

text \<open>A property that is present only when the optional field is set.\<close>

definition opt_prop :: "string \<Rightarrow> ('a \<Rightarrow> jsval) \<Rightarrow> 'a option \<Rightarrow> (string \<times> jsval) list" where
  "opt_prop k f v = (case v of None \<Rightarrow> [] | Some a \<Rightarrow> [(k, f a)])"

text \<open>
  The properties of a player object of the server, in the order in which the code creates
  them: the literal of \<open>initializeBumperBallsGame\<close>, then the fields assigned later.
\<close>

definition player_props :: "PlayerBall \<Rightarrow> (string \<times> jsval) list" where
  "player_props p =
     [(''socketId'', JStr (socketId p)),
      (''name'', JStr (name p)),
      (''color'', JStr (color p)),
      (''position'', vector_json (position p)),
      (''velocity'', vector_json (velocity p)),
      (''rotation'', vector_json (rotation p)),
      (''acceleration'', vector_json (acceleration p)),
      (''isEliminated'', JBool (isEliminated p)),
      (''stamina'', JNum (stamina p)),
      (''isSprinting'', JBool (isSprinting p)),
      (''eliminations'', JNat (eliminations p)),
      (''survivalTime'', JNum (survivalTime p))]
     @ opt_prop ''lastInput'' input_json (lastInput p)
     @ opt_prop ''lastHitBy'' JStr (lastHitBy p)
     @ opt_prop ''lastHitTime'' JInt (lastHitTime p)
     @ opt_prop ''eliminatedAt'' JInt (eliminatedAt p)"

definition status_json :: "Status \<Rightarrow> jsval" where
  "status_json s =
     (case s of Countdown \<Rightarrow> JStr ''countdown'' | Playing \<Rightarrow> JStr ''playing''
      | Ended \<Rightarrow> JStr ''ended'')"

definition gameMode_json :: "GameMode \<Rightarrow> jsval" where
  "gameMode_json m =
     (case m of Classic \<Rightarrow> JStr ''classic'' | Shrinking \<Rightarrow> JStr ''shrinking''
      | Timed \<Rightarrow> JStr ''timed'')"

text \<open>The properties of the game data object itself, which \<open>{...gameData}\<close> copies.\<close>

definition gameData_props :: "GameData \<Rightarrow> (string \<times> jsval) list" where
  "gameData_props gd =
     [(''status'', status_json (status gd))]
     @ opt_prop ''countdownValue'' JInt (countdownValue gd)
     @ [(''startTime'', JInt (startTime gd)),
        (''gameMode'', gameMode_json (gameMode gd)),
        (''players'', JArr (map (\<lambda>p. JObj (player_props p)) (players gd))),
        (''alivePlayers'', JArr (map JStr (alivePlayers gd))),
        (''eliminationOrder'', JArr (map JStr (eliminationOrder gd))),
        (''lastTickTime'', JInt (lastTickTime gd))]
     @ opt_prop ''winnerId'' JStr (winnerId gd)"

text \<open>
  \<open>sanitizeGameData\<close>: \<open>{...gameData, players: gameData.players.map(p => ({...}))}\<close>. The
  spread copies every property of the game data; \<open>players\<close> is then replaced, in place, by
  the array of the eleven-field player objects.
\<close>

definition sanitizePlayerBall :: "PlayerBall \<Rightarrow> jsval" where
  "sanitizePlayerBall p =
     JObj [(''socketId'', JStr (socketId p)),
           (''name'', JStr (name p)),
           (''color'', JStr (color p)),
           (''position'', vector_json (position p)),
           (''velocity'', vector_json (velocity p)),
           (''rotation'', vector_json (rotation p)),
           (''isEliminated'', JBool (isEliminated p)),
           (''stamina'', JNum (stamina p)),
           (''isSprinting'', JBool (isSprinting p)),
           (''eliminations'', JNat (eliminations p)),
           (''survivalTime'', JNum (survivalTime p))]"

definition sanitizeGameData :: "GameData \<Rightarrow> jsval" where
  "sanitizeGameData gd =
     JObj (AList.update ''players'' (JArr (map sanitizePlayerBall (players gd)))
             (gameData_props gd))"

text \<open>The names of the properties of an object, and the value of one of them.\<close>

definition obj_keys :: "jsval \<Rightarrow> string list" where
  "obj_keys v = (case v of JObj ps \<Rightarrow> map fst ps | _ \<Rightarrow> [])"

definition property :: "string \<Rightarrow> jsval \<Rightarrow> jsval option" where
  "property k v = (case v of JObj ps \<Rightarrow> map_of ps k | _ \<Rightarrow> None)"

definition elements :: "jsval \<Rightarrow> jsval list" where
  "elements v = (case v of JArr vs \<Rightarrow> vs | _ \<Rightarrow> [])"

text \<open>The payloads of the messages of a log that carry a given event name.\<close>

definition events_named :: "string \<Rightarrow> emit list \<Rightarrow> jsval list" where
  "events_named e out = map (\<lambda>m. snd (snd m)) (filter (\<lambda>m. fst (snd m) = e) out)"

definition lobbyPlayer_props :: "LobbyPlayer \<Rightarrow> (string \<times> jsval) list" where
  "lobbyPlayer_props p =
     [(''socketId'', JStr (lp_socketId p))]
     @ opt_prop ''gameBuddiesUuid'' JStr (lp_gameBuddiesUuid p)
     @ [(''name'', JStr (lp_name p)),
        (''score'', JInt (lp_score p)),
        (''connected'', JBool (lp_connected p)),
        (''isHost'', JBool (lp_isHost p))]
     @ opt_prop ''disconnectedAt'' JInt (lp_disconnectedAt p)"

text \<open>
  \<open>sanitizePlayer\<close> of the server, and the same five fields as \<open>endGame\<close> lists them
  (there with \<open>p.score || 0\<close>, which is \<open>p.score\<close> for a number).
\<close>

definition sanitizePlayer :: "LobbyPlayer \<Rightarrow> jsval" where
  "sanitizePlayer p =
     JObj [(''socketId'', JStr (lp_socketId p)),
           (''name'', JStr (lp_name p)),
           (''score'', JInt (lp_score p)),
           (''connected'', JBool (lp_connected p)),
           (''isHost'', JBool (lp_isHost p))]"

definition gameState_json :: "GameState \<Rightarrow> jsval" where
  "gameState_json s =
     (case s of LOBBY_WAITING \<Rightarrow> JStr ''LOBBY_WAITING'' | PLAYING \<Rightarrow> JStr ''PLAYING''
      | GAME_ENDED \<Rightarrow> JStr ''GAME_ENDED'')"

definition settings_json :: "Settings \<Rightarrow> jsval" where
  "settings_json s =
     JObj ([(''minPlayers'', JNat (minPlayers s)), (''maxPlayers'', JNat (maxPlayers s))]
           @ opt_prop ''gameMode'' gameMode_json (settings_gameMode s))"

definition chatMessage_json :: "ChatMessage \<Rightarrow> jsval" where
  "chatMessage_json m =
     JObj ([(''id'', JStr (msg_id m)),
            (''playerId'', JStr (playerId m)),
            (''playerName'', JStr (playerName m)),
            (''message'', JStr (message m)),
            (''timestamp'', JInt (timestamp m))]
           @ opt_prop ''isSystem'' JBool (isSystem m))"

text \<open>
  The properties of a lobby object; \<open>gd\<close> is the value of the game data that
  \<open>lobby.gameData\<close> refers to when it is not \<open>null\<close>.
\<close>

definition lobby_props :: "jsval \<Rightarrow> Lobby \<Rightarrow> (string \<times> jsval) list" where
  "lobby_props gd l =
     [(''id'', JStr (lobby_id l)),
      (''code'', JStr (code l)),
      (''hostId'', JStr (hostId l)),
      (''settings'', settings_json (settings l)),
      (''players'', JArr (map (\<lambda>p. JObj (lobbyPlayer_props p)) (lobby_players l))),
      (''state'', gameState_json (state l)),
      (''gameData'', if lobby_gameData l then gd else JNull),
      (''isGameBuddiesRoom'', JBool (isGameBuddiesRoom l))]
     @ opt_prop ''gameBuddiesRoomCode'' JStr (gameBuddiesRoomCode l)
     @ [(''messages'', JArr (map chatMessage_json (messages l)))]"

section \<open>Ending a game\<close>

text \<open>\<open>array.indexOf\<close>: \<open>-1\<close> when the element is absent.\<close>

definition indexOf :: "'a \<Rightarrow> 'a list \<Rightarrow> int" where
  "indexOf x xs = (case findIndex (\<lambda>y. y = x) xs of None \<Rightarrow> - 1 | Some n \<Rightarrow> int n)"

definition finalScore :: "GameData \<Rightarrow> PlayerBall \<Rightarrow> jsval" where
  "finalScore gd player =
     (let place = (if isEliminated player
                   then int (length (players gd)) - indexOf (socketId player) (eliminationOrder gd)
                   else 1);
          score = (if place = 1 then 100 else if place = 2 then 75 else if place = 3 then 50
                   else if place = 4 then 25 else 10)
      in JObj [(''socketId'', JStr (socketId player)),
               (''name'', JStr (name player)),
               (''place'', JInt place),
               (''score'', JInt score),
               (''eliminations'', JNat (eliminations player)),
               (''survivalTime'', JNum (survivalTime player))])"

text \<open>
  \<open>endGame(gameData, winnerId, roomCode, io)\<close>. Both callers pass the game data of the entry
  that \<open>activeGames\<close> holds for \<open>roomCode\<close> (the tick has just checked it, the handler has
  just fetched it), so \<open>activeGames.get(roomCode)\<close> is that entry; the model takes the entry,
  the store of lobby objects and the log. \<open>winnerId\<close> is \<open>None\<close> when the caller passes
  \<open>undefined\<close>. The lobby reference of an entry always points to an object; a reference
  that is \<open>null\<close> or a lobby without the winner skips the score update.
\<close>

type_synonym ctx = "Game \<times> (nat \<rightharpoonup> Lobby) \<times> emit list"

definition endGame :: "string option \<Rightarrow> string \<Rightarrow> ctx \<Rightarrow> ctx" where
  "endGame winner roomCode c =
     (case c of (game, objs, out) \<Rightarrow>
       (let gd = (gameData game)\<lparr>status := Ended, winnerId := winner\<rparr>;
            winnerBall = find (\<lambda>p. Some (socketId p) = winner) (players gd);
            game1 = game\<lparr>gameData := gd,
                         gameLoop := clearTimer (gameLoop game),
                         syncLoop := clearTimer (syncLoop game),
                         cleanupTimeout := clearTimer (cleanupTimeout game)\<rparr>;
            scored =
              (case lobby game of None \<Rightarrow> (objs, out)
               | Some a \<Rightarrow>
                  (case objs a of None \<Rightarrow> (objs, out)
                   | Some l \<Rightarrow>
                      (case findIndex (\<lambda>p. Some (lp_socketId p) = winner) (lobby_players l) of
                         None \<Rightarrow> (objs, out)
                       | Some k \<Rightarrow>
                          (let lobbyWinner = lobby_players l ! k;
                               l' = l\<lparr>lobby_players := (lobby_players l)
                                       [k := lobbyWinner\<lparr>lp_score := lp_score lobbyWinner + 1\<rparr>]\<rparr>
                           in (objs(a \<mapsto> l'),
                               out @ [(ToRoom roomCode, ''lobby:player-list-update'',
                                       JObj [(''players'',
                                              JArr (map sanitizePlayer (lobby_players l')))])])))));
            finalScores = map (finalScore gd) (players gd);
            winnerName = (case winnerBall of None \<Rightarrow> ''Unknown''
                          | Some p \<Rightarrow> if name p = [] then ''Unknown'' else name p)
        in (game1\<lparr>cleanupTimeout := Some Active\<rparr>,
            fst scored,
            snd scored @ [(ToRoom roomCode, ''bumper:game-end'',
                           JObj (opt_prop ''winnerId'' JStr winner
                                 @ [(''winnerName'', JStr winnerName),
                                    (''finalScores'', JArr finalScores),
                                    (''gameData'', sanitizeGameData gd)]))])))"

text \<open>
  \<open>[...players].sort((a, b) => b.eliminations - a.eliminations)[0]\<close>: the first player of a
  stable sort by descending eliminations; \<open>None\<close> for an empty roster, where reading
  \<open>.socketId\<close> of \<open>undefined\<close> throws.
\<close>

definition leader :: "PlayerBall list \<Rightarrow> PlayerBall option" where
  "leader ps =
     (case sort_key (\<lambda>p. - int (eliminations p)) ps of [] \<Rightarrow> None | p # _ \<Rightarrow> Some p)"

datatype error = TypeError

text \<open>
  \<open>checkVictoryCondition\<close>; \<open>now\<close> is the time read in the timed branch. The three tests
  follow one another without \<open>else\<close> or \<open>return\<close>, and each of them reads the game data as
  the previous one left it.
\<close>

definition checkVictoryCondition :: "int \<Rightarrow> string \<Rightarrow> ctx \<Rightarrow> error + ctx" where
  "checkVictoryCondition now roomCode c =
     (if status (gameData (fst c)) \<noteq> Playing then Inr c
      else
        (let c1 = (if length (alivePlayers (gameData (fst c))) = 1
                   then endGame (Some (alivePlayers (gameData (fst c)) ! 0)) roomCode c
                   else c);
             c2 = (if length (alivePlayers (gameData (fst c1))) = 0
                   then endGame (case eliminationOrder (gameData (fst c1)) of [] \<Rightarrow> None
                                 | _ \<Rightarrow> Some (last (eliminationOrder (gameData (fst c1)))))
                          roomCode c1
                   else c1)
         in if gameMode (gameData (fst c2)) = Timed
            then
              (let elapsed = jdiv (Fin (real_of_int (now - startTime (gameData (fst c2)))))
                                  (Fin 1000);
                   duration = Fin 180
               in if jge elapsed duration
                  then (case leader (players (gameData (fst c2))) of
                          None \<Rightarrow> Inl TypeError
                        | Some p \<Rightarrow> Inr (endGame (Some (socketId p)) roomCode c2))
                  else Inr c2)
            else Inr c2))"

section \<open>The physics step and the tick\<close>

definition applyPlayerInput :: "PlayerBall \<Rightarrow> jsnum \<Rightarrow> PlayerBall" where
  "applyPlayerInput player deltaTime =
     (case lastInput player of
        None \<Rightarrow> player
      | Some input \<Rightarrow>
         (let force = (if isSprinting player then SPRINT_FORCE else MOVE_FORCE)
          in player\<lparr>acceleration := (acceleration player)
                      \<lparr>vec_x := jmul (in_x input) force, vec_z := jmul (in_z input) force\<rparr>\<rparr>))"

text \<open>
  The body of the loop of \<open>updatePhysics\<close> for a player that is not eliminated. The stages
  of the mutation are named after the comments of the source.
\<close>

definition stepPlayer :: "jsnum \<Rightarrow> PlayerBall \<Rightarrow> PlayerBall" where
  "stepPlayer deltaTime player =
     (let survived = player\<lparr>survivalTime :=
                        jadd (survivalTime player) (jmul deltaTime (Fin 1000))\<rparr>;
          forced = applyPlayerInput survived deltaTime;
          tired = updateStamina forced deltaTime;
          pulled = tired\<lparr>acceleration := (acceleration tired)\<lparr>vec_y := jneg GRAVITY\<rparr>\<rparr>;
          a = acceleration pulled;
          v = velocity pulled;
          v1 = v\<lparr>vec_x := jadd (vec_x v) (jmul (vec_x a) deltaTime),
                 vec_y := jadd (vec_y v) (jmul (vec_y a) deltaTime),
                 vec_z := jadd (vec_z v) (jmul (vec_z a) deltaTime)\<rparr>;
          v2 = v1\<lparr>vec_x := jmul (vec_x v1) FRICTION, vec_z := jmul (vec_z v1) FRICTION\<rparr>;
          maxVel = (if isSprinting pulled then SPRINT_MAX_VELOCITY else MAX_VELOCITY);
          speed = jsqrt (jadd (jsq (vec_x v2)) (jsq (vec_z v2)));
          v3 = (if jgt speed maxVel
                then v2\<lparr>vec_x := jmul (jdiv (vec_x v2) speed) maxVel,
                        vec_z := jmul (jdiv (vec_z v2) speed) maxVel\<rparr>
                else v2);
          p = position pulled;
          p1 = p\<lparr>vec_x := jadd (vec_x p) (jmul (vec_x v3) deltaTime),
                 vec_y := jadd (vec_y p) (jmul (vec_y v3) deltaTime),
                 vec_z := jadd (vec_z p) (jmul (vec_z v3) deltaTime)\<rparr>;
          distFromCenter = jsqrt (jadd (jsq (vec_x p1)) (jsq (vec_z p1)));
          isOnPlatform = jle distFromCenter PLATFORM_RADIUS;
          landed = (if isOnPlatform \<and> jlt (vec_y p1) SPAWN_HEIGHT
                    then pulled\<lparr>position := p1\<lparr>vec_y := SPAWN_HEIGHT\<rparr>,
                                velocity := v3\<lparr>vec_y := Fin 0\<rparr>\<rparr>
                    else pulled\<lparr>position := p1, velocity := v3\<rparr>)
      in landed\<lparr>acceleration := (acceleration landed)\<lparr>vec_x := Fin 0, vec_z := Fin 0\<rparr>\<rparr>)"

definition updatePhysics :: "(nat \<Rightarrow> nat \<Rightarrow> int) \<Rightarrow> jsnum \<Rightarrow> GameData \<Rightarrow> GameData" where
  "updatePhysics clock deltaTime gd =
     gd\<lparr>players := checkCollisions clock
           (map (\<lambda>player. if isEliminated player then player else stepPlayer deltaTime player)
              (players gd))\<rparr>"

text \<open>
  One run of the physics interval of \<open>startGameLoop\<close>, after its test that the loop is
  still the current one. \<open>now\<close> is the time read by the tick, \<open>hitClock\<close> and \<open>outClock\<close>
  give the times read by the collisions and the eliminations, \<open>endNow\<close> the time read by
  the victory check.
\<close>

definition tick ::
  "int \<Rightarrow> (nat \<Rightarrow> nat \<Rightarrow> int) \<Rightarrow> (nat \<Rightarrow> int \<times> int) \<Rightarrow> int \<Rightarrow> string \<Rightarrow> ctx \<Rightarrow> error + ctx" where
  "tick now hitClock outClock endNow roomCode c =
     (case c of (game, objs, out) \<Rightarrow>
       (let deltaTime = jdiv (Fin (real_of_int (now - lastTickTime (gameData game)))) (Fin 1000);
            ticked = (gameData game)\<lparr>lastTickTime := now\<rparr>;
            moved = updatePhysics hitClock deltaTime ticked;
            checked = checkEliminations outClock roomCode (moved, out)
        in checkVictoryCondition endNow roomCode
             (game\<lparr>gameData := fst checked\<rparr>, objs, snd checked)))"

section \<open>Creating the game data\<close>

text \<open>
  The game data that \<open>initializeBumperBallsGame\<close> builds from a lobby, and the
  \<open>bumper:restart\<close> handler builds again with the same code; \<open>t1\<close> and \<open>t2\<close> are the two
  times read.
\<close>

definition spawnBall :: "nat \<Rightarrow> nat \<Rightarrow> LobbyPlayer \<Rightarrow> PlayerBall" where
  "spawnBall n index player =
     (let angle = jmul (jmul (jdiv (Fin (real index)) (Fin (real n))) (Fin pi)) (Fin 2);
          spawnX = jmul (jcos angle) SPAWN_RADIUS;
          spawnZ = jmul (jsin angle) SPAWN_RADIUS
      in \<lparr>socketId = lp_socketId player, name = lp_name player,
          color = PLAYER_COLORS ! (index mod length PLAYER_COLORS),
          position = \<lparr>vec_x = spawnX, vec_y = SPAWN_HEIGHT, vec_z = spawnZ\<rparr>,
          velocity = \<lparr>vec_x = Fin 0, vec_y = Fin 0, vec_z = Fin 0\<rparr>,
          rotation = \<lparr>vec_x = Fin 0, vec_y = Fin 0, vec_z = Fin 0\<rparr>,
          acceleration = \<lparr>vec_x = Fin 0, vec_y = Fin 0, vec_z = Fin 0\<rparr>,
          isEliminated = False, eliminatedAt = None, stamina = MAX_STAMINA, isSprinting = False,
          eliminations = 0, survivalTime = Fin 0,
          lastInput = Some \<lparr>in_x = Fin 0, in_z = Fin 0, sprint = False\<rparr>,
          lastHitBy = None, lastHitTime = None\<rparr>)"

definition createGameData :: "int \<Rightarrow> int \<Rightarrow> Lobby \<Rightarrow> GameData" where
  "createGameData t1 t2 l =
     (let ps = map (\<lambda>(index, player). spawnBall (length (lobby_players l)) index player)
                 (enumerate 0 (lobby_players l))
      in \<lparr>status = Countdown, countdownValue = Some COUNTDOWN_DURATION, startTime = t1,
          gameMode = (case settings_gameMode (settings l) of None \<Rightarrow> Classic | Some m \<Rightarrow> m),
          players = ps, alivePlayers = map socketId ps, eliminationOrder = [],
          winnerId = None, lastTickTime = t2\<rparr>)"

section \<open>Socket event handlers\<close>

text \<open>
  The handlers of \<open>setupBumperBallsHandlers\<close>; \<open>sid\<close> is \<open>socket.id\<close>, the identity of the
  connection that sent the message.
\<close>

definition bumper_move :: "string \<Rightarrow> string \<Rightarrow> MovementInput \<Rightarrow> World \<Rightarrow> World" where
  "bumper_move sid roomCode movement w =
     (case activeGames w roomCode of
        None \<Rightarrow> w
      | Some game \<Rightarrow>
         (case findIndex (\<lambda>p. socketId p = sid) (players (gameData game)) of
            None \<Rightarrow> w
          | Some k \<Rightarrow>
             (let player = players (gameData game) ! k
              in if isEliminated player then w
                 else w\<lparr>activeGames := (activeGames w)(roomCode \<mapsto>
                          game\<lparr>gameData := (gameData game)\<lparr>players :=
                            (players (gameData game))[k := player\<lparr>lastInput := Some movement\<rparr>]\<rparr>\<rparr>)\<rparr>)))"

text \<open>
  The handler of \<open>game:end\<close> in \<open>setupBumperBallsHandlers\<close>. Its comment says
  \<open>Manual game end (host only)\<close>; in the place of the check there is
  \<open>// TODO: Verify socket is host\<close>.
\<close>

definition bumper_game_end :: "string \<Rightarrow> string \<Rightarrow> World \<Rightarrow> error + World" where
  "bumper_game_end sid roomCode w =
     (case activeGames w roomCode of
        None \<Rightarrow> Inr w
      | Some game \<Rightarrow>
         (case leader (players (gameData game)) of
            None \<Rightarrow> Inl TypeError
          | Some p \<Rightarrow>
             (case endGame (Some (socketId p)) roomCode (game, lobbyObjs w, sent w) of
                (game', objs', out') \<Rightarrow>
                  Inr (w\<lparr>activeGames := (activeGames w)(roomCode \<mapsto> game'),
                         lobbyObjs := objs', sent := out'\<rparr>))))"

text \<open>
  The handler of \<open>game:end\<close> in the server itself, registered on the same socket after
  \<open>setupBumperBallsHandlers\<close>. \<open>uuid\<close> and \<open>now\<close> are what \<open>randomUUID()\<close> and
  \<open>Date.now()\<close> return for the system message.
\<close>

definition sendSystemMessage :: "string \<Rightarrow> int \<Rightarrow> nat \<Rightarrow> string \<Rightarrow> World \<Rightarrow> World" where
  "sendSystemMessage uuid now a text w =
     (case lobbyObjs w a of
        None \<Rightarrow> w
      | Some l \<Rightarrow>
         (let systemMessage = \<lparr>msg_id = uuid, playerId = ''system'', playerName = ''System'',
                                message = text, timestamp = now, isSystem = Some True\<rparr>
          in w\<lparr>lobbyObjs := (lobbyObjs w)(a \<mapsto> l\<lparr>messages := messages l @ [systemMessage]\<rparr>),
               sent := sent w @ [(ToRoom (code l), ''chat:message'',
                                  chatMessage_json systemMessage)]\<rparr>))"

definition server_game_end :: "string \<Rightarrow> string \<Rightarrow> string \<Rightarrow> int \<Rightarrow> World \<Rightarrow> World" where
  "server_game_end sid roomCode uuid now w =
     (case lobbies w roomCode of
        None \<Rightarrow> w
      | Some a \<Rightarrow>
         (case lobbyObjs w a of
            None \<Rightarrow> w
          | Some l \<Rightarrow>
             if hostId l \<noteq> sid
             then w\<lparr>sent := sent w @ [(ToSocket sid, ''error'',
                          JObj [(''message'', JStr ''Only host can end the game'')])]\<rparr>
             else
               (let l' = l\<lparr>state := GAME_ENDED, lobby_gameData := False\<rparr>;
                    w' = w\<lparr>lobbyObjs := (lobbyObjs w)(a \<mapsto> l'),
                           sent := sent w @ [(ToRoom (code l'), ''game:ended'',
                             JObj [(''lobby'',
                               JObj (AList.update ''players''
                                       (JArr (map sanitizePlayer (lobby_players l')))
                                       (lobby_props JNull l')))])]\<rparr>
                in sendSystemMessage uuid now a ''Game ended!'' w')))"

text \<open>
  A \<open>game:end\<close> message runs the listeners of the socket in the order of their
  registration; an exception of the first one ends the dispatch.
\<close>

definition on_game_end :: "string \<Rightarrow> string \<Rightarrow> string \<Rightarrow> int \<Rightarrow> World \<Rightarrow> error + World" where
  "on_game_end sid roomCode uuid now w =
     (case bumper_game_end sid roomCode w of
        Inl e \<Rightarrow> Inl e
      | Inr w' \<Rightarrow> Inr (server_game_end sid roomCode uuid now w'))"

section \<open>Example data\<close>

text \<open>
  A lobby member as the server creates it on \<open>lobby:create\<close> and \<open>lobby:join\<close>, and a
  lobby of three members \<open>a\<close> (the host), \<open>b\<close> and \<open>c\<close> in which a game is running, with
  the registry entry that \<open>initializeBumperBallsGame\<close> and \<open>startGameLoop\<close> leave for it:
  both loops live, no countdown, no cleanup pending.
\<close>

definition lobbyMember :: "string \<Rightarrow> bool \<Rightarrow> LobbyPlayer" where
  "lobbyMember sid host =
     \<lparr>lp_socketId = sid, lp_gameBuddiesUuid = None, lp_name = sid, lp_score = 0,
      lp_connected = True, lp_isHost = host, lp_disconnectedAt = None\<rparr>"

definition demo_lobby :: "GameMode \<Rightarrow> Lobby" where
  "demo_lobby mode =
     \<lparr>lobby_id = ''lobby-1'', code = ''ROOM'', hostId = ''a'',
      settings = \<lparr>minPlayers = 2, maxPlayers = 12, settings_gameMode = Some mode\<rparr>,
      lobby_players = [lobbyMember ''a'' True, lobbyMember ''b'' False, lobbyMember ''c'' False],
      state = PLAYING, lobby_gameData = True, isGameBuddiesRoom = False,
      gameBuddiesRoomCode = None, messages = []\<rparr>"

definition demo_game :: "GameData \<Rightarrow> Game" where
  "demo_game gd =
     \<lparr>lobby = Some 0, gameData = gd, gameLoop = Some Active, syncLoop = Some Active,
      countdownInterval = None, cleanupTimeout = None\<rparr>"

definition demo_world :: "GameData \<Rightarrow> World" where
  "demo_world gd =
     \<lparr>lobbyObjs = [0 \<mapsto> demo_lobby (gameMode gd)], lobbies = [''ROOM'' \<mapsto> 0],
      activeGames = [''ROOM'' \<mapsto> demo_game gd], sent = []\<rparr>"

text \<open>
  Game data of that lobby while playing: all three players live; and a timed game in which
  \<open>c\<close> was knocked out by \<open>b\<close> and \<open>b\<close> has just fallen, so that \<open>a\<close> is the only
  survivor.
\<close>

definition demo_playing :: GameData where
  "demo_playing =
     \<lparr>status = Playing, countdownValue = Some 0, startTime = 0, gameMode = Classic,
      players = [ball ''a'' 0 0 0 0, ball ''b'' 4 0 0 0, ball ''c'' 0 4 0 0],
      alivePlayers = [''a'', ''b'', ''c''], eliminationOrder = [], winnerId = None,
      lastTickTime = 5000\<rparr>"

definition demo_timed_last_tick :: GameData where
  "demo_timed_last_tick =
     \<lparr>status = Playing, countdownValue = Some 0, startTime = 0, gameMode = Timed,
      players = [ball ''a'' 0 0 0 0,
                 (ball ''b'' 12 0 0 0)\<lparr>isEliminated := True, eliminatedAt := Some 180000,
                                         eliminations := 1\<rparr>,
                 (ball ''c'' 0 12 0 0)\<lparr>isEliminated := True, eliminatedAt := Some 60000\<rparr>],
      alivePlayers = [''a''], eliminationOrder = [''c'', ''b''], winnerId = None,
      lastTickTime = 180000\<rparr>"

text \<open>
  Two views of a log: the \<open>winnerId\<close> of each \<open>bumper:game-end\<close> message, and the
  recipient and event name of each message.
\<close>

definition game_end_winners :: "emit list \<Rightarrow> jsval option list" where
  "game_end_winners out = map (property ''winnerId'') (events_named ''bumper:game-end'' out)"

definition headers :: "emit list \<Rightarrow> (target \<times> string) list" where
  "headers out = map (\<lambda>m. (fst m, fst (snd m))) out"

chapter \<open>Properties\<close>

section \<open>Properties of the number model\<close>

lemma jneg_jneg: "jneg (jneg a) = a"
  by (cases a) auto

lemma jadd_commute: "jadd a b = jadd b a"
  by (cases a; cases b) auto

lemma jneg_jadd: "jneg (jadd a b) = jadd (jneg a) (jneg b)"
  by (cases a; cases b) auto

lemma jsub_swap: "jsub a b = jneg (jsub b a)"
  by (simp add: jsub_def jneg_jadd jneg_jneg jadd_commute)

lemma jmul_neg_left: "jmul (jneg a) b = jneg (jmul a b)"
  by (cases a; cases b) auto

lemma jmul_neg_right: "jmul a (jneg b) = jneg (jmul a b)"
  by (cases a; cases b) auto

lemma jdiv_neg_left: "jdiv (jneg a) b = jneg (jdiv a b)"
  by (cases a; cases b) auto

lemma jsq_neg: "jsq (jneg a) = jsq a"
  by (simp add: jsq_def jmul_neg_left jmul_neg_right jneg_jneg)

lemma jsub_neg: "jsub a (jneg b) = jadd a b"
  by (simp add: jsub_def jneg_jneg)

lemma jadd_neg: "jadd a (jneg b) = jsub a b"
  by (simp add: jsub_def)

section \<open>Collision resolution\<close>

lemma resolve_sym:
  "position (snd (resolveCollision now' p2 p1 (jneg dx) (jneg dz) d)) = position (fst (resolveCollision now p1 p2 dx dz d)) \<and>
   velocity (snd (resolveCollision now' p2 p1 (jneg dx) (jneg dz) d)) = velocity (fst (resolveCollision now p1 p2 dx dz d)) \<and>
   position (fst (resolveCollision now' p2 p1 (jneg dx) (jneg dz) d)) = position (snd (resolveCollision now p1 p2 dx dz d)) \<and>
   velocity (fst (resolveCollision now' p2 p1 (jneg dx) (jneg dz) d)) = velocity (snd (resolveCollision now p1 p2 dx dz d))"
proof -
  have vx: "jsub (vec_x (velocity p1)) (vec_x (velocity p2)) = jneg (jsub (vec_x (velocity p2)) (vec_x (velocity p1)))"
    by (rule jsub_swap)
  have vz: "jsub (vec_z (velocity p1)) (vec_z (velocity p2)) = jneg (jsub (vec_z (velocity p2)) (vec_z (velocity p1)))"
    by (rule jsub_swap)
  have m: "jadd (if isSprinting p2 then Fin (3/2) else Fin 1) (if isSprinting p1 then Fin (3/2) else Fin 1)
         = jadd (if isSprinting p1 then Fin (3/2) else Fin 1) (if isSprinting p2 then Fin (3/2) else Fin 1)"
    by (rule jadd_commute)
  show ?thesis
    unfolding resolveCollision_def Let_def
    by (simp add: vx vz m jmul_neg_left jmul_neg_right jdiv_neg_left jsq_neg jsub_neg jadd_neg jneg_jneg
          if_distrib[of fst] if_distrib[of snd] if_distrib[of position] if_distrib[of velocity]
          split del: if_split cong: if_cong)
qed

lemma jmul_neg_neg: "jmul (jneg a) (jneg a) = jmul a a"
  by (simp add: jmul_neg_left jmul_neg_right jneg_jneg)

lemma sqrt_sq: "0 \<le> a \<Longrightarrow> sqrt (a * a) = a"
  by simp

lemma sqrt_quarter: "sqrt (1/4) = 1/2"
  using sqrt_sq[of "1/2"] by simp

lemma sqrt_529_4: "sqrt (529/4) = 23/2"
  using sqrt_sq[of "23/2"] by simp

lemma sqrt_8464_25: "sqrt (8464/25) = 92/5"
  using sqrt_sq[of "92/5"] by simp

text \<open>
  C1. Two live players at the same planar position should be separated without a division
  by zero. \<open>checkCollisions\<close> computes the distance \<open>0\<close> and calls \<open>resolveCollision\<close>, which
  divides \<open>dx\<close> and \<open>dz\<close> by it without a guard: the normal is \<open>0 / 0\<close>, and the planar
  positions and velocities of both players become \<open>NaN\<close>.
\<close>

theorem coincident_centers_nan:
  "map (\<lambda>p. (vec_x (position p), vec_z (position p), vec_x (velocity p), vec_z (velocity p)))
     (checkCollisions (\<lambda>i j. 0) [ball ''a'' 3 4 0 0, ball ''b'' 3 4 0 0])
   = [(NaN, NaN, NaN, NaN), (NaN, NaN, NaN, NaN)]"
  by (simp add: checkCollisions_def collideAt_def collidePair_def resolveCollision_def ball_def
      Let_def jsub_def BALL_RADIUS_def jgt_def jsq_def truthy_def MAX_VELOCITY_def)

text \<open>
  C5. Resolving a pair in the order \<open>(a, b)\<close> and in the order \<open>(b, a)\<close> leaves both players
  with the same position and the same velocity. It holds for every pair of players and every
  value of their coordinates; only the hit attribution (\<open>lastHitBy\<close>, \<open>lastHitTime\<close>) can
  depend on the order.
\<close>

theorem collision_symmetry:
  "position (fst (collidePair now a b)) = position (snd (collidePair now' b a))
   \<and> velocity (fst (collidePair now a b)) = velocity (snd (collidePair now' b a))
   \<and> position (snd (collidePair now a b)) = position (fst (collidePair now' b a))
   \<and> velocity (snd (collidePair now a b)) = velocity (fst (collidePair now' b a))"
proof -
  define dx where "dx = jsub (vec_x (position b)) (vec_x (position a))"
  define dz where "dz = jsub (vec_z (position b)) (vec_z (position a))"
  define distance where "distance = jsqrt (jadd (jmul dx dx) (jmul dz dz))"
  have dx': "jsub (vec_x (position a)) (vec_x (position b)) = jneg dx"
    unfolding dx_def by (rule jsub_swap)
  have dz': "jsub (vec_z (position a)) (vec_z (position b)) = jneg dz"
    unfolding dz_def by (rule jsub_swap)
  have ab: "collidePair now a b =
      (if jlt distance (jmul BALL_RADIUS (Fin 2)) then resolveCollision now a b dx dz distance else (a, b))"
    by (simp add: collidePair_def Let_def dx_def dz_def distance_def)
  have ba: "collidePair now' b a =
      (if jlt distance (jmul BALL_RADIUS (Fin 2)) then resolveCollision now' b a (jneg dx) (jneg dz) distance else (b, a))"
    by (simp add: collidePair_def Let_def dx' dz' jmul_neg_neg distance_def)
  show ?thesis
    using resolve_sym[of now' b a dx dz distance now] by (simp add: ab ba)
qed

text \<open>
  C6. An impulse under the minimum of 24 should be rescaled so that the impulse applied has
  magnitude exactly 24. The code applies the impulse first and then applies the rescaled
  impulse on top of it. Ball \<open>a\<close> moves at speed 2 into the resting ball \<open>b\<close>, half a unit
  away: the impulses are 11.5 on \<open>a\<close> and 18.4 on \<open>b\<close>, and the velocities change by
  35.5 and 42.4.
\<close>

theorem min_impulse_added_on_top:
  "velocity (fst (collidePair 0 (ball ''a'' 0 0 2 0) (ball ''b'' (1/2) 0 0 0)))
     = \<lparr>vec_x = Fin (2 - (23/2 + 24)), vec_y = Fin 0, vec_z = Fin 0\<rparr>
   \<and> velocity (snd (collidePair 0 (ball ''a'' 0 0 2 0) (ball ''b'' (1/2) 0 0 0)))
     = \<lparr>vec_x = Fin (0 + (92/5 + 24)), vec_y = Fin 0, vec_z = Fin 0\<rparr>"
  by (simp add: collidePair_def resolveCollision_def ball_def Let_def
      jsub_def BALL_RADIUS_def jgt_def jsq_def MAX_VELOCITY_def truthy_def
      sqrt_quarter sqrt_529_4 sqrt_8464_25)

section \<open>Stamina and sprinting\<close>

lemma stamina_ok_iff: "stamina_ok s \<longleftrightarrow> (\<exists>r. s = Fin r \<and> 0 \<le> r \<and> r \<le> 100)"
  by (cases s) (auto simp: stamina_ok_def jle_def jseq_def MAX_STAMINA_def)

lemma dt_nonneg: "jge dt (Fin 0) \<longleftrightarrow> dt = PInf \<or> (\<exists>d. dt = Fin d \<and> 0 \<le> d)"
  by (cases dt) (auto simp: jge_def jle_def jseq_def)

text \<open>
  C2. For a delta time that is at least 0 and a stamina within \<open>[0, 100]\<close>, the stamina
  after \<open>updateStamina\<close> is within \<open>[0, 100]\<close>.
\<close>

theorem updateStamina_bounds:
  assumes "jge deltaTime (Fin 0)" and "stamina_ok (stamina player)"
  shows "stamina_ok (stamina (updateStamina player deltaTime))"
proof -
  from assms(2) obtain s where s: "stamina player = Fin s" "0 \<le> s" "s \<le> 100"
    by (auto simp: stamina_ok_iff)
  from assms(1) consider "deltaTime = PInf" | d where "deltaTime = Fin d" "0 \<le> d"
    by (auto simp: dt_nonneg)
  then show ?thesis
  proof cases
    case 1
    with s show ?thesis
      by (simp add: updateStamina_def Let_def stamina_ok_iff jsub_def jgt_def
          STAMINA_DRAIN_def STAMINA_REGEN_def MAX_STAMINA_def)
  next
    case 2
    with s show ?thesis
      by (auto simp add: updateStamina_def Let_def stamina_ok_iff jsub_def jgt_def
          STAMINA_DRAIN_def STAMINA_REGEN_def MAX_STAMINA_def)
  qed
qed

theorem updateStamina_bounds_witness:
  "jge (Fin (1/60)) (Fin 0) \<and> stamina_ok (stamina (ball ''a'' 0 0 0 0))
   \<and> stamina_ok (stamina (updateStamina (ball ''a'' 0 0 0 0) (Fin (1/60))))"
proof -
  have h1: "jge (Fin (1/60)) (Fin 0)"
    by (simp add: jge_def jle_def)
  have h2: "stamina_ok (stamina (ball ''a'' 0 0 0 0))"
    by (simp add: ball_def stamina_ok_def jle_def jseq_def MAX_STAMINA_def)
  from updateStamina_bounds[OF h1 h2] h1 h2 show ?thesis by simp
qed

text \<open>
  C4. If a sprinting player's stamina is 0 after the update, the player is not sprinting
  after it, whatever the input asks; and after the update \<open>isSprinting\<close> holds exactly when
  the last input asks for sprint and the updated stamina is at least \<open>MIN_SPRINT_STAMINA\<close>.
\<close>

theorem updateStamina_sprint:
  "(isSprinting player \<and> stamina (updateStamina player deltaTime) = Fin 0
      \<longrightarrow> \<not> isSprinting (updateStamina player deltaTime))
   \<and> (isSprinting (updateStamina player deltaTime) \<longleftrightarrow>
        input_sprint (lastInput player)
        \<and> jge (stamina (updateStamina player deltaTime)) MIN_SPRINT_STAMINA)"
  by (auto simp add: updateStamina_def Let_def jge_def jle_def jseq_def MIN_SPRINT_STAMINA_def MAX_STAMINA_def)

theorem updateStamina_sprint_witness:
  "isSprinting ((ball ''a'' 0 0 0 0)
       \<lparr>stamina := Fin 1, isSprinting := True,
        lastInput := Some \<lparr>in_x = Fin 1, in_z = Fin 0, sprint = True\<rparr>\<rparr>)
   \<and> stamina (updateStamina ((ball ''a'' 0 0 0 0)
       \<lparr>stamina := Fin 1, isSprinting := True,
        lastInput := Some \<lparr>in_x = Fin 1, in_z = Fin 0, sprint = True\<rparr>\<rparr>) (Fin 1)) = Fin 0
   \<and> \<not> isSprinting (updateStamina ((ball ''a'' 0 0 0 0)
       \<lparr>stamina := Fin 1, isSprinting := True,
        lastInput := Some \<lparr>in_x = Fin 1, in_z = Fin 0, sprint = True\<rparr>\<rparr>) (Fin 1))"
proof -
  let ?p = "(ball ''a'' 0 0 0 0)
       \<lparr>stamina := Fin 1, isSprinting := True,
        lastInput := Some \<lparr>in_x = Fin 1, in_z = Fin 0, sprint = True\<rparr>\<rparr>"
  have h1: "isSprinting ?p" by simp
  have h2: "stamina (updateStamina ?p (Fin 1)) = Fin 0"
    by (simp add: updateStamina_def Let_def ball_def input_moving_def jseq_def jsub_def
        STAMINA_DRAIN_def)
  from updateStamina_sprint[of ?p "Fin 1"] h1 h2 show ?thesis by blast
qed

section \<open>Elimination keeps the game data consistent\<close>

lemma filter_id_absent:
  "sid \<notin> socketId ` set ps \<Longrightarrow>
   filter (\<lambda>id. id \<noteq> sid) (map socketId (filter (\<lambda>p. \<not> isEliminated p) ps))
     = map socketId (filter (\<lambda>p. \<not> isEliminated p) ps)"
  by (induction ps) auto

lemma alive_filter_update:
  "distinct (map socketId ps) \<Longrightarrow> i < length ps \<Longrightarrow> socketId q = socketId (ps ! i) \<Longrightarrow> isEliminated q \<Longrightarrow>
   filter (\<lambda>id. id \<noteq> socketId (ps ! i)) (map socketId (filter (\<lambda>p. \<not> isEliminated p) ps))
   = map socketId (filter (\<lambda>p. \<not> isEliminated p) (ps[i := q]))"
proof (induction ps arbitrary: i)
  case Nil
  then show ?case by simp
next
  case (Cons p ps)
  show ?case
  proof (cases i)
    case 0
    with Cons.prems show ?thesis by (simp add: filter_id_absent)
  next
    case (Suc k)
    have "ps ! k \<in> set ps" using Suc Cons.prems by simp
    moreover have "socketId p \<notin> socketId ` set ps" using Cons.prems(1) by simp
    ultimately have "socketId (ps ! k) \<noteq> socketId p" by (metis imageI)
    with Suc Cons show ?thesis by auto
  qed
qed

lemma elim_update:
  "i < length ps \<Longrightarrow> socketId q = socketId (ps ! i) \<Longrightarrow> isEliminated q \<Longrightarrow>
   set (map socketId (filter isEliminated (ps[i := q])))
     = insert (socketId (ps ! i)) (set (map socketId (filter isEliminated ps)))"
proof (induction ps arbitrary: i)
  case Nil then show ?case by simp
next
  case (Cons p ps) then show ?case by (cases i) auto
qed

lemma alive_not_in_elim:
  "distinct (map socketId ps) \<Longrightarrow> i < length ps \<Longrightarrow> \<not> isEliminated (ps ! i) \<Longrightarrow>
   socketId (ps ! i) \<notin> set (map socketId (filter isEliminated ps))"
proof (induction ps arbitrary: i)
  case Nil then show ?case by simp
next
  case (Cons p ps)
  show ?case
  proof (cases i)
    case 0
    with Cons.prems show ?thesis by auto
  next
    case (Suc k)
    have "ps ! k \<in> set ps" using Suc Cons.prems by simp
    moreover have "socketId p \<notin> socketId ` set ps" using Cons.prems(1) by simp
    ultimately have "socketId (ps ! k) \<noteq> socketId p" by (metis imageI)
    with Suc Cons show ?thesis by auto
  qed
qed

lemma alive_length:
  "distinct (map socketId ps) \<Longrightarrow> i < length ps \<Longrightarrow> \<not> isEliminated (ps ! i) \<Longrightarrow> 
   socketId q = socketId (ps ! i) \<Longrightarrow> isEliminated q \<Longrightarrow>
   Suc (length (filter (\<lambda>p. \<not> isEliminated p) (ps[i := q]))) = length (filter (\<lambda>p. \<not> isEliminated p) ps)"
proof (induction ps arbitrary: i)
  case Nil then show ?case by simp
next
  case (Cons p ps)
  show ?case
  proof (cases i)
    case 0
    with Cons.prems show ?thesis by auto
  next
    case (Suc k)
    with Cons.prems Cons.IH[of k] show ?thesis by auto
  qed
qed

lemma map_filter_cong2:
  "map f xs = map f ys \<Longrightarrow> map g xs = map g ys \<Longrightarrow>
   map f (filter (\<lambda>x. P (g x)) xs) = map f (filter (\<lambda>x. P (g x)) ys)"
proof (induction xs arbitrary: ys)
  case Nil then show ?case by simp
next
  case (Cons x xs) then show ?case by (cases ys) auto
qed

lemma map_update_same: "(map f xs)[a := f (xs ! a)] = map f xs"
  by (metis list_update_id map_update)

lemma eliminatePlayer_shape:
  "\<exists>ps' ev. eliminatePlayer t1 t2 room i (gd, out) =
           (gd\<lparr>players := ps',
               eliminationOrder := eliminationOrder gd @ [socketId (players gd ! i)],
               alivePlayers := filter (\<lambda>id. id \<noteq> socketId (players gd ! i)) (alivePlayers gd)\<rparr>,
            out @ [(ToRoom room, ''bumper:player-eliminated'', ev)])
         \<and> map socketId ps' = map socketId (players gd)
         \<and> map isEliminated ps' = (map isEliminated (players gd))[i := True]"
proof -
  define q where "q = (players gd ! i)\<lparr>isEliminated := True, eliminatedAt := Some t1\<rparr>"
  define ps1 where "ps1 = (players gd)[i := q]"
  define ps' where "ps' =
              (case (lastHitBy q, lastHitTime q) of
                 (Some hitBy, Some hitTime) \<Rightarrow>
                   if hitBy \<noteq> [] \<and> hitTime \<noteq> 0 then
                     (let timeSinceHit = t2 - hitTime
                      in if timeSinceHit < 3000 then
                           (case findIndex (\<lambda>p. socketId p = hitBy) ps1 of
                              Some a \<Rightarrow>
                                if \<not> isEliminated (ps1 ! a)
                                then ps1[a := (ps1 ! a)\<lparr>eliminations := eliminations (ps1 ! a) + 1\<rparr>]
                                else ps1
                            | None \<Rightarrow> ps1)
                         else ps1)
                   else ps1
               | _ \<Rightarrow> ps1)"
  have ids1: "map socketId ps1 = map socketId (players gd)"
    using map_update_same[of socketId "players gd" i] by (simp add: ps1_def q_def map_update)
  have fl1: "map isEliminated ps1 = (map isEliminated (players gd))[i := True]"
    by (simp add: ps1_def q_def map_update)
  have upd: "map socketId (ps1[a := (ps1 ! a)\<lparr>eliminations := n\<rparr>]) = map socketId ps1
           \<and> map isEliminated (ps1[a := (ps1 ! a)\<lparr>eliminations := n\<rparr>]) = map isEliminated ps1" for a n
    by (simp add: map_update map_update_same)
  have same: "map socketId ps' = map socketId ps1 \<and> map isEliminated ps' = map isEliminated ps1"
    unfolding ps'_def Let_def using upd by (simp split: option.splits prod.splits)
  have sq: "socketId q = socketId (players gd ! i)" "name q = name (players gd ! i)" by (simp_all add: q_def)
  have "eliminatePlayer t1 t2 room i (gd, out) =
           (gd\<lparr>players := ps',
               eliminationOrder := eliminationOrder gd @ [socketId (players gd ! i)],
               alivePlayers := filter (\<lambda>id. id \<noteq> socketId (players gd ! i)) (alivePlayers gd)\<rparr>,
            out @ [(ToRoom room, ''bumper:player-eliminated'',
                    JObj [(''socketId'', JStr (socketId q)),
                          (''playerName'', JStr (name q)),
                          (''remainingPlayers'', JNat (length (filter (\<lambda>id. id \<noteq> socketId (players gd ! i)) (alivePlayers gd))))])])"
    unfolding eliminatePlayer_def ps'_def ps1_def q_def Let_def by simp
  with same ids1 fl1 show ?thesis by metis
qed

lemma advances_refl: "advances st st"
  by (simp add: advances_def)

lemma advances_trans: "advances a b \<Longrightarrow> advances b c \<Longrightarrow> advances a c"
  unfolding advances_def
  by (metis (no_types, lifting) length_map order_trans)

lemma eliminatePlayer_inv:
  assumes inv: "session_inv gd" and i: "i < length (players gd)"
    and alive: "\<not> isEliminated (players gd ! i)"
  shows "session_inv (fst (eliminatePlayer t1 t2 room i (gd, out)))"
    and "Suc (length (alivePlayers (fst (eliminatePlayer t1 t2 room i (gd, out))))) = length (alivePlayers gd)"
    and "advances (gd, out) (eliminatePlayer t1 t2 room i (gd, out))"
proof -
  let ?ps = "players gd"
  let ?sid = "socketId (?ps ! i)"
  define q where "q = (?ps ! i)\<lparr>isEliminated := True\<rparr>"
  have q: "socketId q = ?sid" "isEliminated q" by (simp_all add: q_def)
  from eliminatePlayer_shape[of t1 t2 room i gd out] obtain ps' ev where
    res: "eliminatePlayer t1 t2 room i (gd, out) =
           (gd\<lparr>players := ps', eliminationOrder := eliminationOrder gd @ [?sid],
               alivePlayers := filter (\<lambda>id. id \<noteq> ?sid) (alivePlayers gd)\<rparr>,
            out @ [(ToRoom room, ''bumper:player-eliminated'', ev)])"
    and ids: "map socketId ps' = map socketId ?ps"
    and fl: "map isEliminated ps' = (map isEliminated ?ps)[i := True]"
    by blast
  have ids': "map socketId ps' = map socketId (?ps[i := q])"
    using ids map_update_same[of socketId ?ps i] q by (simp add: map_update)
  have fl': "map isEliminated ps' = map isEliminated (?ps[i := q])"
    using fl q by (simp add: map_update)
  from inv have d: "distinct (map socketId ?ps)"
    and al: "alivePlayers gd = map socketId (filter (\<lambda>p. \<not> isEliminated p) ?ps)"
    and de: "distinct (eliminationOrder gd)"
    and se: "set (eliminationOrder gd) = set (map socketId (filter isEliminated ?ps))"
    by (simp_all add: session_inv_def)
  have A: "map socketId (filter (\<lambda>p. \<not> isEliminated p) ps') = filter (\<lambda>id. id \<noteq> ?sid) (alivePlayers gd)"
    using map_filter_cong2[OF ids' fl', of Not] alive_filter_update[OF d i q] al by simp
  have E: "set (map socketId (filter isEliminated ps')) = insert ?sid (set (eliminationOrder gd))"
    using map_filter_cong2[OF ids' fl', of "\<lambda>b. b"] elim_update[OF i q] se by simp
  have N: "?sid \<notin> set (eliminationOrder gd)"
    using alive_not_in_elim[OF d i alive] se by simp
  show "session_inv (fst (eliminatePlayer t1 t2 room i (gd, out)))"
    using A E N d de ids by (simp add: res session_inv_def)
  have "length (filter (\<lambda>id. id \<noteq> ?sid) (alivePlayers gd)) = length (filter (\<lambda>p. \<not> isEliminated p) (?ps[i := q]))"
    using A map_filter_cong2[OF ids' fl', of Not] by (metis length_map)
  then have L: "Suc (length (filter (\<lambda>id. id \<noteq> ?sid) (alivePlayers gd))) = length (alivePlayers gd)"
    using alive_length[OF d i alive q] al by simp
  then show "Suc (length (alivePlayers (fst (eliminatePlayer t1 t2 room i (gd, out))))) = length (alivePlayers gd)"
    by (simp add: res)
  have M: "\<forall>k < length ?ps. isEliminated (?ps ! k) \<longrightarrow> isEliminated (ps' ! k)"
  proof (intro allI impI)
    fix k assume k: "k < length ?ps" and e: "isEliminated (?ps ! k)"
    have "length ps' = length ?ps" using ids by (metis length_map)
    then have "isEliminated (ps' ! k) = (map isEliminated ps') ! k" using k by simp
    also have "\<dots> = ((map isEliminated ?ps)[i := True]) ! k" using fl by simp
    finally show "isEliminated (ps' ! k)" using k e by (cases "k = i") simp_all
  qed
  show "advances (gd, out) (eliminatePlayer t1 t2 room i (gd, out))"
    using ids M L by (simp add: res advances_def elimination_events_def)
qed

lemma eliminationStep_inv:
  assumes inv: "session_inv (fst st)" and i: "i < length (players (fst st))"
  shows "session_inv (fst (eliminationStep clock room st i)) \<and> advances st (eliminationStep clock room st i)"
proof (cases st)
  case (Pair gd out)
  with assms eliminatePlayer_inv[where gd=gd and i=i and ?t1.0="fst (clock i)" and ?t2.0="snd (clock i)" and room=room and out=out]
  show ?thesis
    by (auto simp: eliminationStep_def Let_def advances_refl)
qed

lemma elimination_fold:
  "session_inv (fst st) \<Longrightarrow> \<forall>i \<in> set js. i < length (players (fst st)) \<Longrightarrow>
   session_inv (fst (foldl (eliminationStep clock room) st js))
   \<and> advances st (foldl (eliminationStep clock room) st js)"
proof (induction js arbitrary: st)
  case Nil
  then show ?case by (simp add: advances_refl)
next
  case (Cons j js)
  let ?st1 = "eliminationStep clock room st j"
  from Cons.prems have 1: "session_inv (fst ?st1)" "advances st ?st1"
    using eliminationStep_inv[of st j clock room] by simp_all
  then have len: "length (players (fst ?st1)) = length (players (fst st))"
    unfolding advances_def by (metis length_map)
  with Cons.prems have "\<forall>i \<in> set js. i < length (players (fst ?st1))" by simp
  from Cons.IH[OF 1(1) this] 1(2) show ?case
    by (auto intro: advances_trans)
qed

section \<open>The snapshot sent to clients\<close>

text \<open>The player objects of a snapshot carry the eleven client fields and nothing else.\<close>

lemma snapshot_players:
  "property ''players'' (sanitizeGameData gd) = Some (JArr (map sanitizePlayerBall (players gd)))"
  by (cases "countdownValue gd"; cases "winnerId gd")
     (simp_all add: sanitizeGameData_def gameData_props_def property_def opt_prop_def)

lemma snapshot_player_fields:
  "\<forall>v \<in> set (elements (JArr (map sanitizePlayerBall (players gd)))).
     obj_keys v = [''socketId'', ''name'', ''color'', ''position'', ''velocity'', ''rotation'',
                   ''isEliminated'', ''stamina'', ''isSprinting'', ''eliminations'', ''survivalTime'']"
  by (auto simp: elements_def sanitizePlayerBall_def obj_keys_def)

text \<open>
  C9. A sanitized snapshot should hold no server-only field of the game data, such as
  \<open>lastTickTime\<close>. \<open>sanitizeGameData\<close> rebuilds the player objects but copies the game
  data itself with a spread: for every game data the snapshot has the property
  \<open>lastTickTime\<close>, with the server's value.
\<close>

theorem snapshot_keeps_lastTickTime:
  "property ''lastTickTime'' (sanitizeGameData gd) = Some (JInt (lastTickTime gd))
   \<and> ''lastTickTime'' \<in> set (obj_keys (sanitizeGameData gd))"
  by (cases "countdownValue gd"; cases "winnerId gd")
     (simp_all add: sanitizeGameData_def gameData_props_def property_def obj_keys_def opt_prop_def)

section \<open>Ending a game twice\<close>

lemma endGame_winner: "winnerId (gameData (fst (endGame win r c))) = win
  \<and> status (gameData (fst (endGame win r c))) = Ended
  \<and> players (gameData (fst (endGame win r c))) = players (gameData (fst c))
  \<and> alivePlayers (gameData (fst (endGame win r c))) = alivePlayers (gameData (fst c))
  \<and> eliminationOrder (gameData (fst (endGame win r c))) = eliminationOrder (gameData (fst c))
  \<and> gameMode (gameData (fst (endGame win r c))) = gameMode (gameData (fst c))
  \<and> startTime (gameData (fst (endGame win r c))) = startTime (gameData (fst c))"
  by (cases c) (simp add: endGame_def Let_def)

lemma endGame_events:
  "\<exists>payload. events_named ''bumper:game-end'' (snd (snd (endGame win r c)))
      = events_named ''bumper:game-end'' (snd (snd c)) @ [payload]
    \<and> property ''winnerId'' payload = map_option JStr win"
  by (cases c; cases win)
     (auto simp add: endGame_def Let_def events_named_def property_def opt_prop_def
       split: option.splits)

lemma endGame_game_end_winners:
  "game_end_winners (snd (snd (endGame win r c))) = game_end_winners (snd (snd c)) @ [map_option JStr win]"
  using endGame_events[of win r c] by (auto simp: game_end_winners_def)

lemma endGame_lobby: "lobby (fst (endGame win r c)) = lobby (fst c)"
  by (cases c) (simp add: endGame_def Let_def)

lemma endGame_objs:
  "fst (snd (endGame win r (game, objs, out))) =
     (case lobby game of None \<Rightarrow> objs
      | Some a \<Rightarrow>
         (case objs a of None \<Rightarrow> objs
          | Some l \<Rightarrow>
             (case findIndex (\<lambda>p. Some (lp_socketId p) = win) (lobby_players l) of
                None \<Rightarrow> objs
              | Some k \<Rightarrow> objs(a \<mapsto> l\<lparr>lobby_players := (lobby_players l)
                             [k := (lobby_players l ! k)\<lparr>lp_score := lp_score (lobby_players l ! k) + 1\<rparr>]\<rparr>))))"
  by (simp add: endGame_def Let_def split: option.splits)

lemma endGame_headers:
  "headers (snd (snd (endGame win r (game, objs, out)))) =
     headers out
     @ (case lobby game of None \<Rightarrow> []
        | Some a \<Rightarrow>
           (case objs a of None \<Rightarrow> []
            | Some l \<Rightarrow>
               (case findIndex (\<lambda>p. Some (lp_socketId p) = win) (lobby_players l) of
                  None \<Rightarrow> []
                | Some k \<Rightarrow> [(ToRoom r, ''lobby:player-list-update'')])))
     @ [(ToRoom r, ''bumper:game-end'')]"
  by (simp add: endGame_def Let_def headers_def split: option.splits)

lemma leader_timed: "leader (players demo_timed_last_tick) = Some ((ball ''b'' 12 0 0 0)\<lparr>isEliminated := True, eliminatedAt := Some 180000, eliminations := 1\<rparr>)"
  by (simp add: leader_def demo_timed_last_tick_def sort_key_def ball_def)

lemma leader_demo: "leader (players demo_playing) = Some (ball ''a'' 0 0 0 0)"
  by (simp add: leader_def demo_playing_def sort_key_def ball_def)

text \<open>The leader is a player of the roster with the highest elimination count.\<close>

lemma leader_max:
  assumes "leader ps = Some p"
  shows "p \<in> set ps \<and> (\<forall>q \<in> set ps. eliminations q \<le> eliminations p)"
proof -
  let ?f = "\<lambda>p. - int (eliminations p)"
  from assms obtain rest where s: "sort_key ?f ps = p # rest"
    by (auto simp: leader_def split: list.splits)
  have "set (sort_key ?f ps) = set ps" by simp
  with s have mem: "p \<in> set ps" by (metis list.set_intros(1))
  have "sorted (map ?f (sort_key ?f ps))" by (rule sorted_sort_key)
  with s have "\<forall>q \<in> set rest. ?f p \<le> ?f q" by simp
  moreover have "set ps = insert p (set rest)" using s \<open>set (sort_key ?f ps) = set ps\<close> by (metis list.simps(15))
  ultimately show ?thesis using mem by auto
qed

lemma checkVictory_timed_one_alive:
  assumes "status (gameData (fst c)) = Playing"
    and "alivePlayers (gameData (fst c)) = [a]"
    and "gameMode (gameData (fst c)) = Timed"
    and "180 \<le> real_of_int (now - startTime (gameData (fst c))) / 1000"
    and "leader (players (gameData (fst c))) = Some p"
  shows "checkVictoryCondition now r c
           = Inr (endGame (Some (socketId p)) r (endGame (Some a) r c))"
  using assms
  by (simp add: checkVictoryCondition_def Let_def endGame_winner jge_def jle_def jseq_def)

text \<open>
  C7. \<open>winnerId\<close> should be assigned once and \<open>bumper:game-end\<close> sent once. In the timed
  game \<open>demo_timed_last_tick\<close> one player is left and the 180 seconds are over at the same
  victory check: \<open>endGame\<close> runs for the survivor \<open>a\<close> and then again for the leader \<open>b\<close>.
  \<open>winnerId\<close> ends as \<open>b\<close>, two \<open>bumper:game-end\<close> messages are sent, naming \<open>a\<close> and
  then \<open>b\<close>, and both get a point in the lobby.
\<close>

theorem winner_assigned_twice:
  "(case checkVictoryCondition 180000 ''ROOM''
           (demo_game demo_timed_last_tick, [0 \<mapsto> demo_lobby Timed], []) of
      Inl e \<Rightarrow> False
    | Inr (game, objs, out) \<Rightarrow>
        winnerId (gameData game) = Some ''b''
        \<and> game_end_winners out = [Some (JStr ''a''), Some (JStr ''b'')]
        \<and> map_option (\<lambda>l. map lp_score (lobby_players l)) (objs 0) = Some [1, 1, 0])"
proof -
  let ?c0 = "(demo_game demo_timed_last_tick, [0 \<mapsto> demo_lobby Timed], [])"
  let ?c1 = "endGame (Some ''a'') ''ROOM'' ?c0"
  let ?c2 = "endGame (Some ''b'') ''ROOM'' ?c1"
  have h1: "status (gameData (fst ?c0)) = Playing"
    and h2: "alivePlayers (gameData (fst ?c0)) = [''a'']"
    and h3: "gameMode (gameData (fst ?c0)) = Timed"
    and h4: "180 \<le> real_of_int (180000 - startTime (gameData (fst ?c0))) / 1000"
    by (simp_all add: demo_game_def demo_timed_last_tick_def)
  have h5: "leader (players (gameData (fst ?c0)))
      = Some ((ball ''b'' 12 0 0 0)\<lparr>isEliminated := True, eliminatedAt := Some 180000,
                                      eliminations := 1\<rparr>)"
    using leader_timed by (simp add: demo_game_def)
  have run: "checkVictoryCondition 180000 ''ROOM'' ?c0 = Inr ?c2"
    using checkVictory_timed_one_alive[OF h1 h2 h3 h4 h5] by (simp add: ball_def)
  have w: "winnerId (gameData (fst ?c2)) = Some ''b''"
    by (simp only: endGame_winner)
  have e: "game_end_winners (snd (snd ?c2)) = [Some (JStr ''a''), Some (JStr ''b'')]"
    unfolding endGame_game_end_winners by (simp add: game_end_winners_def events_named_def)
  obtain g1 o1 out1 where c1: "?c1 = (g1, o1, out1)" by (cases ?c1)
  have l1: "lobby g1 = Some 0" using endGame_lobby[of "Some ''a''" "''ROOM''" ?c0] c1
    by (simp add: demo_game_def)
  have o1: "o1 = [0 \<mapsto> (demo_lobby Timed)\<lparr>lobby_players := [(lobbyMember ''a'' True)\<lparr>lp_score := 1\<rparr>, lobbyMember ''b'' False, lobbyMember ''c'' False]\<rparr>]"
    using endGame_objs[of "Some ''a''" "''ROOM''" "demo_game demo_timed_last_tick" "[0 \<mapsto> demo_lobby Timed]" "[]"] c1
    by (simp add: demo_game_def demo_lobby_def lobbyMember_def)
  have o2: "map_option (\<lambda>l. map lp_score (lobby_players l)) (fst (snd ?c2) 0) = Some [1, 1, 0]"
    unfolding c1 endGame_objs l1 o1
    by (simp add: demo_lobby_def lobbyMember_def)
  show ?thesis
    unfolding run using w e o2 by (simp add: case_prod_beta)
qed

section \<open>The invariant across a tick\<close>

text \<open>
  The physics step and the collisions change neither the identity nor the elimination flag
  of a player; \<open>endGame\<close> changes neither the roster nor the two id lists.
\<close>

lemma updateStamina_id:
  "socketId (updateStamina p dt) = socketId p \<and> isEliminated (updateStamina p dt) = isEliminated p"
  by (simp add: updateStamina_def Let_def)

lemma applyPlayerInput_id:
  "socketId (applyPlayerInput p dt) = socketId p \<and> isEliminated (applyPlayerInput p dt) = isEliminated p"
  by (simp add: applyPlayerInput_def Let_def split: option.splits)

lemma stepPlayer_id:
  "socketId (stepPlayer dt p) = socketId p \<and> isEliminated (stepPlayer dt p) = isEliminated p"
  by (simp add: stepPlayer_def Let_def updateStamina_id applyPlayerInput_id)

lemma resolveCollision_id:
  "socketId (fst (resolveCollision now p1 p2 dx dz d)) = socketId p1
   \<and> isEliminated (fst (resolveCollision now p1 p2 dx dz d)) = isEliminated p1
   \<and> socketId (snd (resolveCollision now p1 p2 dx dz d)) = socketId p2
   \<and> isEliminated (snd (resolveCollision now p1 p2 dx dz d)) = isEliminated p2"
  by (simp add: resolveCollision_def Let_def)

lemma collidePair_id:
  "socketId (fst (collidePair now p1 p2)) = socketId p1
   \<and> isEliminated (fst (collidePair now p1 p2)) = isEliminated p1
   \<and> socketId (snd (collidePair now p1 p2)) = socketId p2
   \<and> isEliminated (snd (collidePair now p1 p2)) = isEliminated p2"
  by (simp add: collidePair_def Let_def resolveCollision_id)

lemma collideAt_ids:
  "map socketId (collideAt clock ps ij) = map socketId ps
   \<and> map isEliminated (collideAt clock ps ij) = map isEliminated ps"
proof (cases ij)
  case (Pair i j)
  obtain p1 p2 where c: "collidePair (clock i j) (ps ! i) (ps ! j) = (p1, p2)"
    by (cases "collidePair (clock i j) (ps ! i) (ps ! j)")
  from collidePair_id[of "clock i j" "ps ! i" "ps ! j"] c
  have e: "socketId p1 = socketId (ps ! i)" "isEliminated p1 = isEliminated (ps ! i)"
    "socketId p2 = socketId (ps ! j)" "isEliminated p2 = isEliminated (ps ! j)"
    by simp_all
  show ?thesis
    using Pair c e by (simp add: collideAt_def map_update map_update_same)
qed

lemma collide_fold_ids:
  "map socketId (foldl (collideAt clock) ps ijs) = map socketId ps
   \<and> map isEliminated (foldl (collideAt clock) ps ijs) = map isEliminated ps"
  by (induction ijs arbitrary: ps) (simp_all add: collideAt_ids)

lemma checkCollisions_ids:
  "map socketId (checkCollisions clock ps) = map socketId ps
   \<and> map isEliminated (checkCollisions clock ps) = map isEliminated ps"
  by (simp add: checkCollisions_def Let_def collide_fold_ids)

lemma updatePhysics_ids:
  "map socketId (players (updatePhysics clock dt gd)) = map socketId (players gd)
   \<and> map isEliminated (players (updatePhysics clock dt gd)) = map isEliminated (players gd)
   \<and> alivePlayers (updatePhysics clock dt gd) = alivePlayers gd
   \<and> eliminationOrder (updatePhysics clock dt gd) = eliminationOrder gd"
proof -
  let ?step = "\<lambda>player. if isEliminated player then player else stepPlayer dt player"
  have "map socketId (map ?step (players gd)) = map socketId (players gd)"
    by (induction "players gd") (simp_all add: stepPlayer_id)
  moreover have "map isEliminated (map ?step (players gd)) = map isEliminated (players gd)"
    by (induction "players gd") (simp_all add: stepPlayer_id)
  ultimately show ?thesis
    by (simp add: updatePhysics_def checkCollisions_ids)
qed

text \<open>The invariant reads the players only through their identities and elimination flags.\<close>

lemma session_inv_cong:
  assumes "map socketId (players gd') = map socketId (players gd)"
    and "map isEliminated (players gd') = map isEliminated (players gd)"
    and "alivePlayers gd' = alivePlayers gd"
    and "eliminationOrder gd' = eliminationOrder gd"
  shows "session_inv gd' = session_inv gd"
  using map_filter_cong2[OF assms(1,2), of Not] map_filter_cong2[OF assms(1,2), of "\<lambda>b. b"] assms
  by (simp add: session_inv_def)

lemma advances_cong:
  assumes "map socketId (players gd') = map socketId (players gd)"
    and "map isEliminated (players gd') = map isEliminated (players gd)"
    and "alivePlayers gd' = alivePlayers gd"
    and "elimination_events out' = elimination_events out"
  shows "advances (gd, out) (gd', out')"
proof -
  have len: "length (players gd') = length (players gd)" using assms(1) by (metis length_map)
  have "isEliminated (players gd' ! k) = isEliminated (players gd ! k)" if "k < length (players gd)" for k
    using assms(2) that len by (metis nth_map)
  with assms show ?thesis by (simp add: advances_def)
qed

lemma endGame_elimination_events:
  "elimination_events (snd (snd (endGame win r c))) = elimination_events (snd (snd c))"
  by (cases c) (simp add: endGame_def Let_def elimination_events_def split: option.splits)

lemma endGame_keeps:
  "session_inv (gameData (fst (endGame win r c))) = session_inv (gameData (fst c))
   \<and> advances (gameData (fst c), snd (snd c)) (gameData (fst (endGame win r c)), snd (snd (endGame win r c)))"
proof
  show "session_inv (gameData (fst (endGame win r c))) = session_inv (gameData (fst c))"
    by (rule session_inv_cong) (simp_all add: endGame_winner)
  show "advances (gameData (fst c), snd (snd c)) (gameData (fst (endGame win r c)), snd (snd (endGame win r c)))"
    by (rule advances_cong) (simp_all add: endGame_winner endGame_elimination_events)
qed

lemma checkVictoryCondition_keeps:
  assumes "checkVictoryCondition now r c = Inr c'"
  shows "session_inv (gameData (fst c')) = session_inv (gameData (fst c))
   \<and> advances (gameData (fst c), snd (snd c)) (gameData (fst c'), snd (snd c'))"
proof -
  let ?ok = "\<lambda>x. session_inv (gameData (fst x)) = session_inv (gameData (fst c))
        \<and> advances (gameData (fst c), snd (snd c)) (gameData (fst x), snd (snd x))"
  have step: "?ok (endGame w r x)" if "?ok x" for w x
    using that endGame_keeps[of w r x] by (auto intro: advances_trans)
  have base: "?ok c"
    by (simp add: advances_refl)
  define c1 where "c1 = (if length (alivePlayers (gameData (fst c))) = 1
                   then endGame (Some (alivePlayers (gameData (fst c)) ! 0)) r c
                   else c)"
  define c2 where "c2 = (if length (alivePlayers (gameData (fst c1))) = 0
                   then endGame (case eliminationOrder (gameData (fst c1)) of [] \<Rightarrow> None
                                 | _ \<Rightarrow> Some (last (eliminationOrder (gameData (fst c1)))))
                          r c1
                   else c1)"
  have ok1: "?ok c1" unfolding c1_def using step base by simp
  have ok2: "?ok c2" unfolding c2_def using step ok1 by simp
  have "c' = c \<or> c' = c2 \<or> (\<exists>w. c' = endGame w r c2)"
    using assms unfolding checkVictoryCondition_def Let_def c1_def[symmetric] c2_def[symmetric]
    by (auto split: if_splits option.splits)
  with base ok2 step show ?thesis by blast
qed

lemma tick_keeps:
  assumes "tick now hitClock outClock endNow r (game, objs, out) = Inr (game', objs', out')"
    and "session_inv (gameData game)"
  shows "session_inv (gameData game') \<and> advances (gameData game, out) (gameData game', out')"
proof -
  define dt where "dt = jdiv (Fin (real_of_int (now - lastTickTime (gameData game)))) (Fin 1000)"
  define moved where "moved = updatePhysics hitClock dt ((gameData game)\<lparr>lastTickTime := now\<rparr>)"
  define checked where "checked = checkEliminations outClock r (moved, out)"
  have v: "checkVictoryCondition endNow r (game\<lparr>gameData := fst checked\<rparr>, objs, snd checked)
            = Inr (game', objs', out')"
    using assms(1) by (simp add: tick_def Let_def dt_def moved_def checked_def)
  have m: "map socketId (players moved) = map socketId (players (gameData game))"
    "map isEliminated (players moved) = map isEliminated (players (gameData game))"
    "alivePlayers moved = alivePlayers (gameData game)"
    "eliminationOrder moved = eliminationOrder (gameData game)"
    using updatePhysics_ids[of hitClock dt "(gameData game)\<lparr>lastTickTime := now\<rparr>"]
    by (simp_all add: moved_def)
  have im: "session_inv moved"
    using session_inv_cong[OF m] assms(2) by simp
  have am: "advances (gameData game, out) (moved, out)"
    by (rule advances_cong) (simp_all add: m)
  have ic: "session_inv (fst checked) \<and> advances (moved, out) checked"
    unfolding checked_def checkEliminations_def
    using elimination_fold[of "(moved, out)" "[0..<length (players moved)]" outClock r] im by simp
  from checkVictoryCondition_keeps[OF v]
  have "session_inv (gameData game') = session_inv (fst checked)"
    and "advances (fst checked, snd checked) (gameData game', out')"
    by simp_all
  with ic am show ?thesis
    by (metis advances_trans prod.collapse)
qed

lemma leader_None: "leader ps = None \<longleftrightarrow> ps = []"
proof -
  have "length (sort_key (\<lambda>p. - int (eliminations p)) ps) = length ps" by simp
  then have "sort_key (\<lambda>p. - int (eliminations p)) ps = [] \<longleftrightarrow> ps = []"
    by (metis length_0_conv)
  then show ?thesis by (auto simp: leader_def split: list.splits)
qed

lemma ex_triple: "\<exists>a b c. x = (a, b, c)"
  by (cases x) auto

lemma checkVictoryCondition_returns:
  assumes "players (gameData (fst c)) \<noteq> []"
  shows "\<exists>c'. checkVictoryCondition now r c = Inr c'"
proof -
  define c1 where "c1 = (if length (alivePlayers (gameData (fst c))) = 1
                   then endGame (Some (alivePlayers (gameData (fst c)) ! 0)) r c
                   else c)"
  define c2 where "c2 = (if length (alivePlayers (gameData (fst c1))) = 0
                   then endGame (case eliminationOrder (gameData (fst c1)) of [] \<Rightarrow> None
                                 | _ \<Rightarrow> Some (last (eliminationOrder (gameData (fst c1)))))
                          r c1
                   else c1)"
  have "players (gameData (fst c1)) = players (gameData (fst c))"
    by (simp add: c1_def endGame_winner)
  then have "players (gameData (fst c2)) = players (gameData (fst c))"
    by (simp add: c2_def endGame_winner)
  with assms obtain p where "leader (players (gameData (fst c2))) = Some p"
    using leader_None[of "players (gameData (fst c2))"] by auto
  then show ?thesis
    unfolding checkVictoryCondition_def Let_def c1_def[symmetric] c2_def[symmetric]
    by (simp add: ex_triple)
qed

lemma elimination_fold_length:
  "session_inv (fst st) \<Longrightarrow> length (players (fst (checkEliminations clock r st))) = length (players (fst st))"
  using elimination_fold[of st "[0..<length (players (fst st))]" clock r]
  unfolding checkEliminations_def advances_def by (metis atLeastLessThan_iff length_map set_upt)

lemma tick_returns:
  assumes "players (gameData game) \<noteq> []" and "session_inv (gameData game)"
  shows "\<exists>c'. tick now hitClock outClock endNow r (game, objs, out) = Inr c'"
proof -
  define dt where "dt = jdiv (Fin (real_of_int (now - lastTickTime (gameData game)))) (Fin 1000)"
  define moved where "moved = updatePhysics hitClock dt ((gameData game)\<lparr>lastTickTime := now\<rparr>)"
  define checked where "checked = checkEliminations outClock r (moved, out)"
  have m: "map socketId (players moved) = map socketId (players (gameData game))"
    "map isEliminated (players moved) = map isEliminated (players (gameData game))"
    "alivePlayers moved = alivePlayers (gameData game)"
    "eliminationOrder moved = eliminationOrder (gameData game)"
    using updatePhysics_ids[of hitClock dt "(gameData game)\<lparr>lastTickTime := now\<rparr>"]
    by (simp_all add: moved_def)
  have im: "session_inv moved"
    using session_inv_cong[OF m] assms(2) by simp
  have "length (players moved) = length (players (gameData game))"
    using m(1) by (metis length_map)
  moreover have "length (players (fst checked)) = length (players moved)"
    unfolding checked_def using elimination_fold_length[of "(moved, out)"] im by simp
  ultimately have "players (fst checked) \<noteq> []" using assms(1) by auto
  then have "\<exists>c'. checkVictoryCondition endNow r (game\<lparr>gameData := fst checked\<rparr>, objs, snd checked) = Inr c'"
    by (intro checkVictoryCondition_returns) simp
  then show ?thesis
    by (simp add: tick_def Let_def dt_def moved_def checked_def)
qed

lemma spawn_ids:
  "map socketId (map (\<lambda>(index, player). spawnBall n index player) (enumerate k xs)) = map lp_socketId xs
   \<and> filter (\<lambda>p. \<not> isEliminated p) (map (\<lambda>(index, player). spawnBall n index player) (enumerate k xs))
       = map (\<lambda>(index, player). spawnBall n index player) (enumerate k xs)
   \<and> filter isEliminated (map (\<lambda>(index, player). spawnBall n index player) (enumerate k xs)) = []"
  by (induction xs arbitrary: k) (simp_all add: spawnBall_def Let_def)

lemma createGameData_inv:
  assumes "distinct (map lp_socketId (lobby_players l))"
  shows "session_inv (createGameData t1 t2 l)"
  using assms spawn_ids[of "length (lobby_players l)" 0 "lobby_players l"]
  by (simp add: createGameData_def session_inv_def Let_def)

lemma bumper_move_inv:
  assumes "activeGames w r = Some game" and "activeGames (bumper_move sid r m w) r = Some game'"
  shows "session_inv (gameData game') = session_inv (gameData game)
         \<and> advances (gameData game, sent w) (gameData game', sent (bumper_move sid r m w))"
proof -
  let ?ps = "players (gameData game)"
  have s: "sent (bumper_move sid r m w) = sent w"
    using assms(1) by (simp add: bumper_move_def Let_def split: option.splits)
  consider "game' = game"
    | k where "game' = game\<lparr>gameData := (gameData game)\<lparr>players := ?ps[k := (?ps ! k)\<lparr>lastInput := Some m\<rparr>]\<rparr>\<rparr>"
    using assms by (auto simp: bumper_move_def Let_def split: option.splits if_splits)
  then show ?thesis
  proof cases
    case 1
    then show ?thesis by (simp add: s advances_refl)
  next
    case 2
    have ids: "map socketId (players (gameData game')) = map socketId ?ps"
      and fl: "map isEliminated (players (gameData game')) = map isEliminated ?ps"
      and al: "alivePlayers (gameData game') = alivePlayers (gameData game)"
      and el: "eliminationOrder (gameData game') = eliminationOrder (gameData game)"
      by (simp_all add: 2 map_update map_update_same)
    have "session_inv (gameData game') = session_inv (gameData game)"
      using ids fl al el by (rule session_inv_cong)
    moreover have "advances (gameData game, sent w) (gameData game', sent (bumper_move sid r m w))"
      unfolding s using ids fl al by (rule advances_cong) simp
    ultimately show ?thesis by simp
  qed
qed

lemma sqrt_121: "sqrt 121 = 11"
  using real_sqrt_abs2[of 11] by simp

lemma upt_0_3: "[0..<3] = [0, 1, 2]"
  by (simp add: upt_conv_Cons)

text \<open>
  C3. Within a session's game data, with every player under its own \<open>socketId\<close>: a pass of
  \<open>checkEliminations\<close> leaves every eliminated player eliminated, keeps \<open>eliminationOrder\<close>
  free of duplicates, lowers the size of \<open>alivePlayers\<close> by exactly the number of
  elimination messages it sends and never raises it, and keeps \<open>alivePlayers\<close> equal to the
  ids of the players that are not eliminated; one call of \<open>eliminatePlayer\<close> on a live
  player lowers the size of \<open>alivePlayers\<close> by exactly 1; and the same holds across a
  whole tick (physics, collisions, eliminations, victory check).
\<close>

theorem elimination_invariants:
  assumes "session_inv gd"
  shows
   "(let st' = checkEliminations clock room (gd, out); gd' = fst st'; out' = snd st' in
      (\<forall>k < length (players gd). isEliminated (players gd ! k) \<longrightarrow> isEliminated (players gd' ! k))
      \<and> distinct (eliminationOrder gd')
      \<and> length (alivePlayers gd') + elimination_events out'
          = length (alivePlayers gd) + elimination_events out
      \<and> length (alivePlayers gd') \<le> length (alivePlayers gd)
      \<and> alivePlayers gd' = map socketId (filter (\<lambda>p. \<not> isEliminated p) (players gd'))
      \<and> session_inv gd')
    \<and> (\<forall>i t1 t2. i < length (players gd) \<and> \<not> isEliminated (players gd ! i) \<longrightarrow>
         Suc (length (alivePlayers (fst (eliminatePlayer t1 t2 room i (gd, out)))))
           = length (alivePlayers gd)
         \<and> session_inv (fst (eliminatePlayer t1 t2 room i (gd, out))))
    \<and> (\<forall>game objs now hitClock endNow game' objs' out'.
         gameData game = gd
         \<and> tick now hitClock clock endNow room (game, objs, out) = Inr (game', objs', out') \<longrightarrow>
         (\<forall>k < length (players gd).
            isEliminated (players gd ! k) \<longrightarrow> isEliminated (players (gameData game') ! k))
         \<and> distinct (eliminationOrder (gameData game'))
         \<and> length (alivePlayers (gameData game')) + elimination_events out'
             = length (alivePlayers gd) + elimination_events out
         \<and> length (alivePlayers (gameData game')) \<le> length (alivePlayers gd)
         \<and> alivePlayers (gameData game')
             = map socketId (filter (\<lambda>p. \<not> isEliminated p) (players (gameData game')))
         \<and> session_inv (gameData game'))"
proof -
  have "session_inv (fst (checkEliminations clock room (gd, out)))
        \<and> advances (gd, out) (checkEliminations clock room (gd, out))"
    unfolding checkEliminations_def
    using elimination_fold[of "(gd, out)" "[0..<length (players gd)]" clock room] assms by simp
  then have inv': "session_inv (fst (checkEliminations clock room (gd, out)))"
    and adv: "advances (gd, out) (checkEliminations clock room (gd, out))"
    by blast+
  have pass: "(let st' = checkEliminations clock room (gd, out); gd' = fst st'; out' = snd st' in
      (\<forall>k < length (players gd). isEliminated (players gd ! k) \<longrightarrow> isEliminated (players gd' ! k))
      \<and> distinct (eliminationOrder gd')
      \<and> length (alivePlayers gd') + elimination_events out'
          = length (alivePlayers gd) + elimination_events out
      \<and> length (alivePlayers gd') \<le> length (alivePlayers gd)
      \<and> alivePlayers gd' = map socketId (filter (\<lambda>p. \<not> isEliminated p) (players gd'))
      \<and> session_inv gd')"
    unfolding Let_def
    using inv' inv'[unfolded session_inv_def] adv[unfolded advances_def fst_conv snd_conv]
    by blast
  have one: "Suc (length (alivePlayers (fst (eliminatePlayer t1 t2 room i (gd, out)))))
           = length (alivePlayers gd)
         \<and> session_inv (fst (eliminatePlayer t1 t2 room i (gd, out)))"
    if "i < length (players gd)" "\<not> isEliminated (players gd ! i)" for i t1 t2
    using eliminatePlayer_inv(1,2)[OF assms that] by simp
  have whole: "(\<forall>k < length (players gd).
            isEliminated (players gd ! k) \<longrightarrow> isEliminated (players (gameData game') ! k))
         \<and> distinct (eliminationOrder (gameData game'))
         \<and> length (alivePlayers (gameData game')) + elimination_events out'
             = length (alivePlayers gd) + elimination_events out
         \<and> length (alivePlayers (gameData game')) \<le> length (alivePlayers gd)
         \<and> alivePlayers (gameData game')
             = map socketId (filter (\<lambda>p. \<not> isEliminated p) (players (gameData game')))
         \<and> session_inv (gameData game')"
    if "gameData game = gd"
      and "tick now hitClock clock endNow room (game, objs, out) = Inr (game', objs', out')"
    for game objs now hitClock endNow game' objs' out'
  proof -
    from tick_keeps[OF that(2)] that(1) assms
    have i: "session_inv (gameData game')" and a: "advances (gd, out) (gameData game', out')"
      by simp_all
    from i i[unfolded session_inv_def] a[unfolded advances_def fst_conv snd_conv]
    show ?thesis by blast
  qed
  from pass one whole show ?thesis by blast
qed

theorem elimination_invariants_witness:
  "(let gd = \<lparr>status = Playing, countdownValue = Some 0, startTime = 0, gameMode = Classic,
              players = [ball ''a'' 0 0 0 0, ball ''b'' 11 0 0 0,
                         (ball ''c'' 12 0 0 0)\<lparr>isEliminated := True, eliminatedAt := Some 5\<rparr>],
              alivePlayers = [''a'', ''b''], eliminationOrder = [''c''], winnerId = None,
              lastTickTime = 0\<rparr>;
        st' = checkEliminations (\<lambda>i. (7, 7)) ''ROOM'' (gd, [])
    in session_inv gd \<and> session_inv (fst st')
       \<and> alivePlayers (fst st') = [''a''] \<and> eliminationOrder (fst st') = [''c'', ''b'']
       \<and> map isEliminated (players (fst st')) = [False, True, True]
       \<and> elimination_events (snd st') = 1)"
proof -
  let ?gd = "\<lparr>status = Playing, countdownValue = Some 0, startTime = 0, gameMode = Classic,
              players = [ball ''a'' 0 0 0 0, ball ''b'' 11 0 0 0,
                         (ball ''c'' 12 0 0 0)\<lparr>isEliminated := True, eliminatedAt := Some 5\<rparr>],
              alivePlayers = [''a'', ''b''], eliminationOrder = [''c''], winnerId = None,
              lastTickTime = 0\<rparr>"
  have h: "session_inv ?gd"
    by (simp add: session_inv_def ball_def)
  have e: "checkEliminations (\<lambda>i. (7, 7)) ''ROOM'' (?gd, []) =
     (?gd\<lparr>players := [ball ''a'' 0 0 0 0,
                        (ball ''b'' 11 0 0 0)\<lparr>isEliminated := True, eliminatedAt := Some 7\<rparr>,
                        (ball ''c'' 12 0 0 0)\<lparr>isEliminated := True, eliminatedAt := Some 5\<rparr>],
           alivePlayers := [''a''], eliminationOrder := [''c'', ''b'']\<rparr>,
      [(ToRoom ''ROOM'', ''bumper:player-eliminated'',
        JObj [(''socketId'', JStr ''b''), (''playerName'', JStr ''b''),
              (''remainingPlayers'', JNat 1)])])"
    by (simp add: checkEliminations_def eliminationStep_def eliminatePlayer_def ball_def Let_def
        jsq_def jgt_def PLATFORM_RADIUS_def FALL_THRESHOLD_def SPAWN_HEIGHT_def sqrt_121 upt_0_3)
  from elimination_invariants[OF h, of "\<lambda>i. (7, 7)" "''ROOM''" "[]"]
  have inv': "session_inv (fst (checkEliminations (\<lambda>i. (7, 7)) ''ROOM'' (?gd, [])))"
    unfolding Let_def by blast
  let ?st' = "checkEliminations (\<lambda>i. (7, 7)) ''ROOM'' (?gd, [])"
  have r: "alivePlayers (fst ?st') = [''a''] \<and> eliminationOrder (fst ?st') = [''c'', ''b'']
       \<and> map isEliminated (players (fst ?st')) = [False, True, True]
       \<and> elimination_events (snd ?st') = 1"
    unfolding e by (simp add: elimination_events_def ball_def)
  from h inv' r show ?thesis
    unfolding Let_def by blast
qed

section \<open>What the handlers change\<close>

text \<open>
  C8. A \<open>game:end\<close> message from a connection that is not the host should change nothing
  and be answered by an error to that connection only. In \<open>demo_world demo_playing\<close> the
  host is \<open>a\<close> and the message comes from \<open>b\<close>: the handler of the game, which has no
  host check, ends the session with the leader \<open>a\<close> as winner and tells the room; the
  handler of the server then sends the error to \<open>b\<close>.
\<close>

theorem non_host_ends_game:
  "(case on_game_end ''b'' ''ROOM'' ''uuid-1'' 6000 (demo_world demo_playing) of
      Inl e \<Rightarrow> False
    | Inr w' \<Rightarrow>
        map_option hostId (lobbyObjs w' 0) = Some ''a''
        \<and> map_option (\<lambda>g. (status (gameData g), winnerId (gameData g))) (activeGames w' ''ROOM'')
            = Some (Ended, Some ''a'')
        \<and> headers (sent w')
            = [(ToRoom ''ROOM'', ''lobby:player-list-update''),
               (ToRoom ''ROOM'', ''bumper:game-end''),
               (ToSocket ''b'', ''error'')])"
proof -
  let ?w = "demo_world demo_playing"
  let ?c = "endGame (Some ''a'') ''ROOM'' (demo_game demo_playing, lobbyObjs ?w, sent ?w)"
  obtain g1 o1 out1 where c: "?c = (g1, o1, out1)" by (cases ?c)
  have b: "bumper_game_end ''b'' ''ROOM'' ?w =
      Inr (?w\<lparr>activeGames := (activeGames ?w)(''ROOM'' \<mapsto> g1), lobbyObjs := o1, sent := out1\<rparr>)"
    using c leader_demo
    by (simp add: bumper_game_end_def demo_world_def demo_game_def ball_def)
  have g1: "status (gameData g1) = Ended" "winnerId (gameData g1) = Some ''a''"
    using endGame_winner[of "Some ''a''" "''ROOM''" "(demo_game demo_playing, lobbyObjs ?w, sent ?w)"] c
    by simp_all
  have o1: "o1 = [0 \<mapsto> (demo_lobby Classic)\<lparr>lobby_players :=
        [(lobbyMember ''a'' True)\<lparr>lp_score := 1\<rparr>, lobbyMember ''b'' False, lobbyMember ''c'' False]\<rparr>]"
    using endGame_objs[of "Some ''a''" "''ROOM''" "demo_game demo_playing" "lobbyObjs ?w" "sent ?w"] c
    by (simp add: demo_world_def demo_game_def demo_lobby_def lobbyMember_def demo_playing_def)
  have h1: "headers out1 = [(ToRoom ''ROOM'', ''lobby:player-list-update''), (ToRoom ''ROOM'', ''bumper:game-end'')]"
    using endGame_headers[of "Some ''a''" "''ROOM''" "demo_game demo_playing" "lobbyObjs ?w" "sent ?w"] c
    by (simp add: demo_world_def demo_game_def demo_lobby_def lobbyMember_def demo_playing_def headers_def)
  show ?thesis
    unfolding on_game_end_def b
    using g1 h1
    by (simp add: server_game_end_def o1 demo_world_def demo_lobby_def headers_def)
qed

lemma findIndex_None: "findIndex P xs = None \<longleftrightarrow> (\<forall>x \<in> set xs. \<not> P x)"
  by (induction xs) (auto split: option.splits)

lemma findIndex_first: "findIndex P xs = Some k \<Longrightarrow> k < length xs \<and> P (xs ! k) \<and> (\<forall>j < k. \<not> P (xs ! j))"
proof (induction xs arbitrary: k)
  case Nil then show ?case by simp
next
  case (Cons x xs)
  show ?case
  proof (cases "P x")
    case True with Cons.prems show ?thesis by simp
  next
    case False
    with Cons.prems obtain n where n: "findIndex P xs = Some n" "k = Suc n"
      by (auto split: option.splits)
    from Cons.IH[OF n(1)] False n(2) show ?thesis
      by (auto simp: nth_Cons split: nat.splits)
  qed
qed

text \<open>
  C10. A \<open>bumper:move\<close> message for a room without a live game, from a connection that is
  not in the roster, or from an eliminated player changes nothing; an accepted message
  changes the \<open>lastInput\<close> of the addressed player (the first player of the roster with the
  sender's \<open>socketId\<close>) and nothing else.
\<close>

theorem bumper_move_frame:
  "(activeGames w roomCode = None \<longrightarrow> bumper_move sid roomCode m w = w)
   \<and> (\<forall>game. activeGames w roomCode = Some game
         \<and> sid \<notin> socketId ` set (players (gameData game))
         \<longrightarrow> bumper_move sid roomCode m w = w)
   \<and> (\<forall>game k. activeGames w roomCode = Some game
         \<and> findIndex (\<lambda>p. socketId p = sid) (players (gameData game)) = Some k
         \<and> isEliminated (players (gameData game) ! k)
         \<longrightarrow> bumper_move sid roomCode m w = w)
   \<and> (\<forall>game k. activeGames w roomCode = Some game
         \<and> findIndex (\<lambda>p. socketId p = sid) (players (gameData game)) = Some k
         \<and> \<not> isEliminated (players (gameData game) ! k)
         \<longrightarrow> (\<exists>ps'. bumper_move sid roomCode m w =
                    w\<lparr>activeGames := (activeGames w)(roomCode \<mapsto>
                         game\<lparr>gameData := (gameData game)\<lparr>players := ps'\<rparr>\<rparr>)\<rparr>
                  \<and> length ps' = length (players (gameData game))
                  \<and> (\<forall>j < length ps'. j \<noteq> k \<longrightarrow> ps' ! j = players (gameData game) ! j)
                  \<and> ps' ! k = (players (gameData game) ! k)\<lparr>lastInput := Some m\<rparr>))"
proof (intro conjI allI impI)
  show "bumper_move sid roomCode m w = w" if "activeGames w roomCode = None"
    using that by (simp add: bumper_move_def)
next
  fix game
  assume a: "activeGames w roomCode = Some game \<and> sid \<notin> socketId ` set (players (gameData game))"
  then have "findIndex (\<lambda>p. socketId p = sid) (players (gameData game)) = None"
    by (auto simp: findIndex_None)
  with a show "bumper_move sid roomCode m w = w"
    by (simp add: bumper_move_def)
next
  fix game k
  assume "activeGames w roomCode = Some game
         \<and> findIndex (\<lambda>p. socketId p = sid) (players (gameData game)) = Some k
         \<and> isEliminated (players (gameData game) ! k)"
  then show "bumper_move sid roomCode m w = w"
    by (simp add: bumper_move_def)
next
  fix game k
  assume a: "activeGames w roomCode = Some game
         \<and> findIndex (\<lambda>p. socketId p = sid) (players (gameData game)) = Some k
         \<and> \<not> isEliminated (players (gameData game) ! k)"
  let ?ps = "players (gameData game)"
  let ?ps' = "?ps[k := (?ps ! k)\<lparr>lastInput := Some m\<rparr>]"
  from a have k: "k < length ?ps" using findIndex_first by blast
  have "bumper_move sid roomCode m w =
          w\<lparr>activeGames := (activeGames w)(roomCode \<mapsto> game\<lparr>gameData := (gameData game)\<lparr>players := ?ps'\<rparr>\<rparr>)\<rparr>"
    using a by (simp add: bumper_move_def Let_def)
  moreover have "length ?ps' = length ?ps" by simp
  moreover have "\<forall>j < length ?ps'. j \<noteq> k \<longrightarrow> ?ps' ! j = ?ps ! j" by simp
  moreover have "?ps' ! k = (?ps ! k)\<lparr>lastInput := Some m\<rparr>" using k by simp
  ultimately show "\<exists>ps'. bumper_move sid roomCode m w =
                    w\<lparr>activeGames := (activeGames w)(roomCode \<mapsto>
                         game\<lparr>gameData := (gameData game)\<lparr>players := ps'\<rparr>\<rparr>)\<rparr>
                  \<and> length ps' = length (players (gameData game))
                  \<and> (\<forall>j < length ps'. j \<noteq> k \<longrightarrow> ps' ! j = players (gameData game) ! j)
                  \<and> ps' ! k = (players (gameData game) ! k)\<lparr>lastInput := Some m\<rparr>"
    by blast
qed

theorem bumper_move_frame_witness:
  "activeGames (demo_world demo_playing) ''ROOM'' = Some (demo_game demo_playing)
   \<and> findIndex (\<lambda>p. socketId p = ''b'') (players (gameData (demo_game demo_playing))) = Some 1
   \<and> \<not> isEliminated (players (gameData (demo_game demo_playing)) ! 1)
   \<and> (\<exists>ps'. bumper_move ''b'' ''ROOM'' \<lparr>in_x = Fin 1, in_z = Fin 0, sprint = True\<rparr>
                (demo_world demo_playing)
              = (demo_world demo_playing)\<lparr>activeGames :=
                   (activeGames (demo_world demo_playing))(''ROOM'' \<mapsto>
                      (demo_game demo_playing)\<lparr>gameData := demo_playing\<lparr>players := ps'\<rparr>\<rparr>)\<rparr>
          \<and> ps' = [ball ''a'' 0 0 0 0,
                    (ball ''b'' 4 0 0 0)\<lparr>lastInput := Some \<lparr>in_x = Fin 1, in_z = Fin 0, sprint = True\<rparr>\<rparr>,
                    ball ''c'' 0 4 0 0])
   \<and> activeGames (demo_world demo_playing) ''GONE'' = None
   \<and> bumper_move ''b'' ''GONE'' \<lparr>in_x = Fin 1, in_z = Fin 0, sprint = True\<rparr>
        (demo_world demo_playing) = demo_world demo_playing"
proof -
  let ?w = "demo_world demo_playing"
  let ?m = "\<lparr>in_x = Fin 1, in_z = Fin 0, sprint = True\<rparr>"
  have a: "activeGames ?w ''ROOM'' = Some (demo_game demo_playing)"
    by (simp add: demo_world_def)
  have f: "findIndex (\<lambda>p. socketId p = ''b'') (players (gameData (demo_game demo_playing))) = Some 1"
    by (simp add: demo_game_def demo_playing_def ball_def)
  have n: "\<not> isEliminated (players (gameData (demo_game demo_playing)) ! 1)"
    by (simp add: demo_game_def demo_playing_def ball_def)
  have g: "activeGames ?w ''GONE'' = None"
    by (simp add: demo_world_def)
  from bumper_move_frame[of ?w "''ROOM''" "''b''" ?m] a f n
  obtain ps' where r: "bumper_move ''b'' ''ROOM'' ?m ?w =
        ?w\<lparr>activeGames := (activeGames ?w)(''ROOM'' \<mapsto>
             (demo_game demo_playing)\<lparr>gameData := (gameData (demo_game demo_playing))\<lparr>players := ps'\<rparr>\<rparr>)\<rparr>"
    and l: "length ps' = length (players (gameData (demo_game demo_playing)))"
    and o: "\<forall>j < length ps'. j \<noteq> 1 \<longrightarrow> ps' ! j = players (gameData (demo_game demo_playing)) ! j"
    and k: "ps' ! 1 = (players (gameData (demo_game demo_playing)) ! 1)\<lparr>lastInput := Some ?m\<rparr>"
    by blast
  from l have l3: "length ps' = 3" by (simp add: demo_game_def demo_playing_def)
  from o l3 have "ps' ! 0 = ball ''a'' 0 0 0 0" "ps' ! 2 = ball ''c'' 0 4 0 0"
    by (simp_all add: demo_game_def demo_playing_def)
  moreover from k have "ps' ! 1 = (ball ''b'' 4 0 0 0)\<lparr>lastInput := Some ?m\<rparr>"
    by (simp add: demo_game_def demo_playing_def)
  ultimately have ps: "ps' = [ball ''a'' 0 0 0 0, (ball ''b'' 4 0 0 0)\<lparr>lastInput := Some ?m\<rparr>, ball ''c'' 0 4 0 0]"
    using l3 by (intro nth_equalityI) (auto simp: nth_Cons less_Suc_eq numeral_3_eq_3 numeral_2_eq_2 split: nat.splits)
  from bumper_move_frame[of ?w "''GONE''" "''b''" ?m] g
  have z: "bumper_move ''b'' ''GONE'' ?m ?w = ?w" by blast
  from r have r': "bumper_move ''b'' ''ROOM'' ?m ?w =
        ?w\<lparr>activeGames := (activeGames ?w)(''ROOM'' \<mapsto>
             (demo_game demo_playing)\<lparr>gameData := demo_playing\<lparr>players := ps'\<rparr>\<rparr>)\<rparr>"
    by (simp add: demo_game_def)
  from a f n g z r' ps show ?thesis by blast
qed

end
